theory Spec2Isabelle
  imports Main "HOL-Library.Sublist" "HOL-Library.AList"
begin

section \<open>Python string operations used by the parsers\<close>

text \<open>
  A Python \<open>str\<close> is modelled as a \<open>string\<close> (a list of 8-bit characters, so code
  points below 256). The parsers in \<open>app/agents\<close> use \<open>in\<close>, \<open>startswith\<close>,
  \<open>split\<close>, \<open>replace\<close> and \<open>strip\<close>; none of them raises on the arguments the
  source passes (every separator and every replaced substring is a non-empty literal).
\<close>

text \<open>\<open>sub in s\<close>: \<open>sub\<close> occurs in \<open>s\<close> as a contiguous substring.\<close>

definition contains :: "string \<Rightarrow> string \<Rightarrow> bool" where
  "contains s sub = sublist sub s"

text \<open>\<open>s.startswith(p)\<close>.\<close>

definition startswith :: "string \<Rightarrow> string \<Rightarrow> bool" where
  "startswith s p = prefix p s"

text \<open>
  \<open>s.split(sep)\<close> for a non-empty \<open>sep\<close>: the text is cut at the non-overlapping
  occurrences of \<open>sep\<close>, found from left to right. (Python raises \<open>ValueError\<close> on an
  empty separator; the source never passes one, and here an empty separator cuts nowhere.)
\<close>

fun split :: "string \<Rightarrow> string \<Rightarrow> string list" where
  "split [] sep = [[]]"
| "split (c # cs) sep =
     (if sep \<noteq> [] \<and> prefix sep (c # cs)
      then [] # split (drop (length sep) (c # cs)) sep
      else (case split cs sep of
              [] \<Rightarrow> [[c]]
            | w # ws \<Rightarrow> (c # w) # ws))"

text \<open>\<open>s.split(sep, maxsplit)\<close>: at most \<open>maxsplit\<close> cuts, the rest is kept whole.\<close>

fun split_max :: "string \<Rightarrow> string \<Rightarrow> nat \<Rightarrow> string list" where
  "split_max s sep 0 = [s]"
| "split_max [] sep (Suc n) = [[]]"
| "split_max (c # cs) sep (Suc n) =
     (if sep \<noteq> [] \<and> prefix sep (c # cs)
      then [] # split_max (drop (length sep) (c # cs)) sep n
      else (case split_max cs sep (Suc n) of
              [] \<Rightarrow> [[c]]
            | w # ws \<Rightarrow> (c # w) # ws))"

text \<open>\<open>s.replace(old, new)\<close> for a non-empty \<open>old\<close>: every non-overlapping occurrence,
  from left to right.\<close>

fun replace :: "string \<Rightarrow> string \<Rightarrow> string \<Rightarrow> string" where
  "replace [] old new = []"
| "replace (c # cs) old new =
     (if old \<noteq> [] \<and> prefix old (c # cs)
      then new @ replace (drop (length old) (c # cs)) old new
      else c # replace cs old new)"

text \<open>\<open>s.replace(old, new, count)\<close>: only the first \<open>count\<close> occurrences.\<close>

fun replace_count :: "string \<Rightarrow> string \<Rightarrow> string \<Rightarrow> nat \<Rightarrow> string" where
  "replace_count s old new 0 = s"
| "replace_count [] old new (Suc n) = []"
| "replace_count (c # cs) old new (Suc n) =
     (if old \<noteq> [] \<and> prefix old (c # cs)
      then new @ replace_count (drop (length old) (c # cs)) old new n
      else c # replace_count cs old new (Suc n))"

text \<open>
  \<open>str.isspace\<close> on a single character, for the code points below 256: tab, line feed,
  vertical tab, form feed, carriage return, the four separators 0x1C to 0x1F, space,
  next line (0x85) and no-break space (0xA0).
\<close>

definition isspace :: "char \<Rightarrow> bool" where
  "isspace c = (c \<in> set [CHR 0x09, CHR 0x0A, CHR 0x0B, CHR 0x0C, CHR 0x0D,
                          CHR 0x1C, CHR 0x1D, CHR 0x1E, CHR 0x1F, CHR 0x20,
                          CHR 0x85, CHR 0xA0])"

text \<open>\<open>s.strip()\<close>: leading and trailing whitespace removed.\<close>

definition strip :: "string \<Rightarrow> string" where
  "strip s = rev (dropWhile isspace (rev (dropWhile isspace s)))"

text \<open>
  The comprehension \<open>[line.strip() for line in text.split("\n") if line.strip()]\<close>, which
  every parser uses for its list-shaped sections: an empty string is falsy.
\<close>

definition stripped_lines :: "string \<Rightarrow> string list" where
  "stripped_lines text =
     map strip (filter (\<lambda>line. strip line \<noteq> []) (split text ''\<newline>''))"

section \<open>Content parsing (\<open>ContentAgent._parse_content_result\<close>)\<close>

record lesson_content =
  lc_content :: string
  lc_resources :: "string list"

text \<open>
  \<open>parts = result.split("RESOURCES:")\<close> has at least one element, and at least two when
  the marker occurs; the source tests \<open>len(parts) >= 2\<close> and otherwise leaves the initial
  dictionary (empty content, no resources) untouched.
\<close>

definition parse_content_result :: "string \<Rightarrow> lesson_content" where
  "parse_content_result result =
     (if contains result ''CONTENT:'' \<and> contains result ''RESOURCES:''
      then (case split result ''RESOURCES:'' of
              p0 # p1 # rest \<Rightarrow>
                \<lparr>lc_content = strip (replace p0 ''CONTENT:'' []),
                 lc_resources = stripped_lines (strip p1)\<rparr>
            | _ \<Rightarrow> \<lparr>lc_content = [], lc_resources = []\<rparr>)
      else \<lparr>lc_content = result, lc_resources = []\<rparr>)"

text \<open>\<open>sep.join(items)\<close>.\<close>

fun join :: "string \<Rightarrow> string list \<Rightarrow> string" where
  "join sep [] = []"
| "join sep [x] = x"
| "join sep (x # y # ys) = x @ sep @ join sep (y # ys)"

section \<open>Research parsing (\<open>ResearchAgent._parse_research_result\<close>)\<close>

record research_data =
  rd_summary :: string
  rd_key_concepts :: "string list"
  rd_resources :: "string list"
  rd_insights :: string

text \<open>The values of the local variable \<open>current_section\<close>; \<open>None\<close> before the first header.\<close>

datatype research_section = Summary | Key_concepts | Resources | Insights

text \<open>
  One iteration of \<open>for section in sections\<close>: the \<open>if\<close>/\<open>elif\<close> chain tests the four
  headers in the source's order, and a block with no header is appended to the section
  that is open (\<open>elif current_section\<close>), or dropped when none is.
\<close>

definition research_step ::
  "research_data \<times> research_section option \<Rightarrow> string \<Rightarrow> research_data \<times> research_section option"
where
  "research_step acc section =
     (case acc of (rd, current_section) \<Rightarrow>
        if contains section ''RESEARCH SUMMARY:'' then
          (rd\<lparr>rd_summary := strip (replace section ''RESEARCH SUMMARY:'' [])\<rparr>, Some Summary)
        else if contains section ''KEY CONCEPTS:'' then
          (rd\<lparr>rd_key_concepts := stripped_lines (strip (replace section ''KEY CONCEPTS:'' []))\<rparr>,
           Some Key_concepts)
        else if contains section ''RESOURCES:'' then
          (rd\<lparr>rd_resources := stripped_lines (strip (replace section ''RESOURCES:'' []))\<rparr>,
           Some Resources)
        else if contains section ''INSIGHTS:'' then
          (rd\<lparr>rd_insights := strip (replace section ''INSIGHTS:'' [])\<rparr>, Some Insights)
        else
          (case current_section of
             None \<Rightarrow> (rd, current_section)
           | Some Summary \<Rightarrow>
               (rd\<lparr>rd_summary := rd_summary rd @ ''\<newline>'' @ section\<rparr>, current_section)
           | Some Key_concepts \<Rightarrow>
               (rd\<lparr>rd_key_concepts := rd_key_concepts rd @ stripped_lines section\<rparr>, current_section)
           | Some Resources \<Rightarrow>
               (rd\<lparr>rd_resources := rd_resources rd @ stripped_lines section\<rparr>, current_section)
           | Some Insights \<Rightarrow>
               (rd\<lparr>rd_insights := rd_insights rd @ ''\<newline>'' @ section\<rparr>, current_section)))"

definition empty_research_data :: research_data where
  "empty_research_data =
     \<lparr>rd_summary = [], rd_key_concepts = [], rd_resources = [], rd_insights = []\<rparr>"

definition parse_research_result :: "string \<Rightarrow> research_data" where
  "parse_research_result result =
     fst (foldl research_step (empty_research_data, None) (split result ''\<newline>\<newline>''))"

section \<open>Structure parsing (\<open>StructureAgent._parse_structure_result\<close>)\<close>

record lesson_skeleton =
  ls_title :: string
  ls_content :: string

record module_skeleton =
  ms_title :: string
  ms_lessons :: "lesson_skeleton list"

record structure_data =
  cs_course_title :: string
  cs_course_description :: string
  cs_modules :: "module_skeleton list"
  cs_rationale :: string

text \<open>
  The lesson title of a stripped lesson line: \<open>lesson_line.split(":", 1)\<close> has two parts
  when the line has a colon, and the title is the second one, stripped; otherwise the
  first \<open>"- "\<close> is removed and the rest stripped.
\<close>

definition lesson_title_of :: "string \<Rightarrow> string" where
  "lesson_title_of lesson_line =
     (case split_max lesson_line '':'' 1 of
        p0 # p1 # rest \<Rightarrow> strip p1
      | _ \<Rightarrow> strip (replace_count lesson_line ''- '' [] 1))"

text \<open>One iteration of \<open>for i in range(1, len(lines))\<close>.\<close>

definition lesson_line_step :: "lesson_skeleton list \<Rightarrow> string \<Rightarrow> lesson_skeleton list" where
  "lesson_line_step lessons line =
     (let lesson_line = strip line in
      if startswith lesson_line ''- Lesson '' \<or> startswith lesson_line ''- ''
      then lessons @ [\<lparr>ls_title = lesson_title_of lesson_line, ls_content = []\<rparr>]
      else lessons)"

text \<open>
  One iteration of \<open>for section in sections\<close>. The three course headers are tested by
  containment before the module prefix is, in the source's order; a block that matches
  nothing is skipped. \<open>lines[0]\<close> exists because \<open>split\<close> never returns an empty list.
\<close>

definition structure_step :: "structure_data \<Rightarrow> string \<Rightarrow> structure_data" where
  "structure_step sd raw_section =
     (let section = strip raw_section in
      if contains section ''COURSE TITLE:'' then
        sd\<lparr>cs_course_title := strip (replace section ''COURSE TITLE:'' [])\<rparr>
      else if contains section ''COURSE DESCRIPTION:'' then
        sd\<lparr>cs_course_description := strip (replace section ''COURSE DESCRIPTION:'' [])\<rparr>
      else if contains section ''RATIONALE:'' then
        sd\<lparr>cs_rationale := strip (replace section ''RATIONALE:'' [])\<rparr>
      else if startswith section ''MODULE '' then
        (case split section ''\<newline>'' of
           [] \<Rightarrow> sd
         | line0 # lines \<Rightarrow>
             sd\<lparr>cs_modules := cs_modules sd @
                  [\<lparr>ms_title = strip line0, ms_lessons = foldl lesson_line_step [] lines\<rparr>]\<rparr>)
      else sd)"

definition empty_structure_data :: structure_data where
  "empty_structure_data =
     \<lparr>cs_course_title = [], cs_course_description = [], cs_modules = [], cs_rationale = []\<rparr>"

definition parse_structure_result :: "string \<Rightarrow> structure_data" where
  "parse_structure_result result =
     foldl structure_step empty_structure_data (split result ''\<newline>\<newline>'')"

section \<open>Agents and the external generation chain (\<open>BaseAgent\<close>)\<close>

text \<open>
  Of a \<open>BaseAgent\<close> the pipeline reads \<open>self.name\<close>, \<open>self.system_prompt\<close> and
  \<open>self.chain\<close>. The chain (prompt template piped into the language model) is the external
  collaborator: it receives the dictionary of template variables and either returns the
  text of the response (\<open>Inr\<close>) or raises an exception \<open>e\<close>, of which only \<open>str(e)\<close> is
  ever used (\<open>Inl\<close>). A dictionary of template variables is an association list.
\<close>

type_synonym inputs = "(string \<times> string) list"

record agent =
  ag_name :: string
  ag_system_prompt :: string
  ag_chain :: "inputs \<Rightarrow> string + string"

text \<open>
  The trace of a run: each entry into a node function of the graph (its first
  \<open>logger.info("Starting ...")\<close> line) and each call of \<open>BaseAgent.run\<close> (its
  \<open>logger.info(f"Running {self.name}")\<close> line), in the order in which they happen.
\<close>

datatype node = Research | Structure | Content | Finalize

datatype event = Node_started node | Agent_running string

text \<open>
  \<open>BaseAgent.run\<close>: adds the \<open>context\<close> variable, invokes the chain and re-raises whatever
  it raises.
\<close>

definition run :: "agent \<Rightarrow> inputs \<Rightarrow> (string + string) \<times> event list" where
  "run a inps = (ag_chain a (AList.update ''context'' [] inps), [Agent_running (ag_name a)])"

text \<open>\<open>_format_list\<close>, and the same expression inlined in \<open>create_structure\<close>.\<close>

definition format_list :: "string list \<Rightarrow> string" where
  "format_list items = join ''\<newline>'' (map (\<lambda>item. ''- '' @ item) items)"

subsection \<open>\<open>ResearchAgent.research_topic\<close>\<close>

text \<open>
  \<open>research_topic\<close> returns one of two dictionaries: the parsed research data, or, when
  anything in its \<open>try\<close> block raised, \<open>{"error": f"Research failed: {str(e)}"}\<close>. Both are
  non-empty dictionaries, hence truthy. It never raises itself.
\<close>

datatype research_dict = Research_parsed research_data | Research_error string

definition research_topic :: "agent \<Rightarrow> string \<Rightarrow> string \<Rightarrow> string \<Rightarrow> research_dict \<times> event list" where
  "research_topic a topic audience duration =
     (case run a [(''system_prompt'', ag_system_prompt a), (''topic'', topic),
                  (''audience'', audience), (''duration'', duration)] of
        (Inr result, tr) \<Rightarrow> (Research_parsed (parse_research_result result), tr)
      | (Inl e, tr) \<Rightarrow> (Research_error (''Research failed: '' @ e), tr))"

text \<open>\<open>research_data.get(key, default)\<close> on the two shapes.\<close>

definition get_summary :: "research_dict \<Rightarrow> string" where
  "get_summary d = (case d of Research_parsed rd \<Rightarrow> rd_summary rd | Research_error e \<Rightarrow> [])"

definition get_key_concepts :: "research_dict \<Rightarrow> string list" where
  "get_key_concepts d = (case d of Research_parsed rd \<Rightarrow> rd_key_concepts rd | Research_error e \<Rightarrow> [])"

definition get_insights :: "research_dict \<Rightarrow> string" where
  "get_insights d = (case d of Research_parsed rd \<Rightarrow> rd_insights rd | Research_error e \<Rightarrow> [])"

subsection \<open>\<open>StructureAgent.create_structure\<close>\<close>

text \<open>Its \<open>except\<close> clause logs and re-raises, so a failure of the chain is a failure of
  \<open>create_structure\<close>.\<close>

definition create_structure ::
  "agent \<Rightarrow> string \<Rightarrow> research_dict \<Rightarrow> string \<Rightarrow> string \<Rightarrow> (string + structure_data) \<times> event list"
where
  "create_structure a topic research audience duration =
     (case run a [(''system_prompt'', ag_system_prompt a), (''topic'', topic),
                  (''audience'', audience), (''duration'', duration),
                  (''research_summary'', get_summary research),
                  (''key_concepts'', format_list (get_key_concepts research))] of
        (Inr result, tr) \<Rightarrow> (Inr (parse_structure_result result), tr)
      | (Inl e, tr) \<Rightarrow> (Inl e, tr))"

subsection \<open>\<open>ContentAgent.generate_lesson_content\<close>\<close>

text \<open>The f-string \<open>research_info\<close>, with the indentation of the source.\<close>

definition research_info :: "research_dict \<Rightarrow> string" where
  "research_info research =
     ''\<newline>        Summary:\<newline>        '' @ get_summary research @
     ''\<newline>        \<newline>        Key Concepts:\<newline>        '' @ format_list (get_key_concepts research) @
     ''\<newline>        \<newline>        Insights:\<newline>        '' @ get_insights research @
     ''\<newline>        ''"

text \<open>
  The orchestrator passes \<open>state.research_data\<close>, which may be \<open>None\<close>; then
  \<open>research_data.get\<close> raises \<open>AttributeError\<close> before the chain is reached. There is no
  \<open>try\<close> in this method: whatever the chain raises, the method raises.
\<close>

definition none_has_no_get :: string where
  "none_has_no_get =
     [CHR 0x27] @ ''NoneType'' @ [CHR 0x27] @ '' object has no attribute '' @
     [CHR 0x27] @ ''get'' @ [CHR 0x27]"

definition generate_lesson_content ::
  "agent \<Rightarrow> string \<Rightarrow> string \<Rightarrow> string \<Rightarrow> string \<Rightarrow> research_dict option \<Rightarrow> string \<Rightarrow> string
     \<Rightarrow> (string + lesson_content) \<times> event list"
where
  "generate_lesson_content a course_title course_description module_title lesson_title
       research audience duration =
     (case research of
        None \<Rightarrow> (Inl none_has_no_get, [])
      | Some rd \<Rightarrow>
          (case run a [(''system_prompt'', ag_system_prompt a), (''course_title'', course_title),
                       (''course_description'', course_description),
                       (''module_title'', module_title), (''lesson_title'', lesson_title),
                       (''audience'', audience), (''duration'', duration),
                       (''research_info'', research_info rd)] of
             (Inr result, tr) \<Rightarrow> (Inr (parse_content_result result), tr)
           | (Inl e, tr) \<Rightarrow> (Inl e, tr)))"

section \<open>The orchestrator (\<open>app/agents/orchestrator.py\<close>)\<close>

subsection \<open>The state of the graph\<close>

text \<open>
  The dictionaries that the stages build have fixed keys, so they are records:
  a lesson of \<open>content_data\<close> and of \<open>final_course\<close>, a module of \<open>final_course\<close>, and
  \<open>final_course\<close> itself. \<open>content_data\<close> is keyed by module title; it is an association
  list on which \<open>d[k] = v\<close> is \<open>AList.update\<close> and \<open>d.get(k, default)\<close> is \<open>map_of\<close>.
\<close>

record lesson_dict =
  ld_title :: string
  ld_content :: string
  ld_resources :: "string list"

record module_dict =
  md_title :: string
  md_lessons :: "lesson_dict list"

record course_dict =
  fc_course_title :: string
  fc_description :: string
  fc_modules :: "module_dict list"
  fc_references :: "string list"

type_synonym content_dict = "(string \<times> lesson_dict list) list"

record agent_state =
  brief :: string
  target_audience :: "string option"
  course_duration :: "string option"
  research_data :: "research_dict option"
  course_structure :: "structure_data option"
  content_data :: "content_dict option"
  final_course :: "course_dict option"
  error :: "string option"

text \<open>
  \<open>AgentState(brief=..., target_audience=..., course_duration=...)\<close>: every other field
  takes its default \<open>None\<close>. Each stage builds its result from this with the fields it
  passes.
\<close>

definition AgentState :: "string \<Rightarrow> string option \<Rightarrow> string option \<Rightarrow> agent_state" where
  "AgentState b ta cd =
     \<lparr>brief = b, target_audience = ta, course_duration = cd, research_data = None,
      course_structure = None, content_data = None, final_course = None, error = None\<rparr>"

text \<open>\<open>x or ""\<close> on an optional string.\<close>

definition or_empty :: "string option \<Rightarrow> string" where
  "or_empty x = (case x of None \<Rightarrow> [] | Some v \<Rightarrow> v)"

text \<open>
  Truthiness, as the \<open>if\<close> statements of the orchestrator test it: \<open>None\<close>, the empty string
  and the empty dictionary are falsy. \<open>research_data\<close>, \<open>course_structure\<close> and
  \<open>final_course\<close> hold dictionaries that always have a key, so they are truthy when set;
  \<open>content_data\<close> is truthy when it is set and has a key (the pattern \<open>Some (kv # cd)\<close>).
\<close>

definition truthy_str :: "string option \<Rightarrow> bool" where
  "truthy_str x = (case x of None \<Rightarrow> False | Some v \<Rightarrow> v \<noteq> [])"

record agents =
  research_agent :: agent
  structure_agent :: agent
  content_agent :: agent

subsection \<open>The four node functions\<close>

text \<open>
  \<open>research_course_topic\<close>. \<open>research_topic\<close> never raises, so the \<open>except\<close> clause of
  this node, the only place that would set \<open>error\<close>, is never entered.
\<close>

definition research_course_topic :: "agents \<Rightarrow> agent_state \<Rightarrow> agent_state \<times> event list" where
  "research_course_topic ags state =
     (case research_topic (research_agent ags) (brief state)
             (or_empty (target_audience state)) (or_empty (course_duration state)) of
        (rd, tr) \<Rightarrow>
          ((AgentState (brief state) (target_audience state) (course_duration state))
              \<lparr>research_data := Some rd\<rparr>,
           Node_started Research # tr))"

definition create_course_structure :: "agents \<Rightarrow> agent_state \<Rightarrow> agent_state \<times> event list" where
  "create_course_structure ags state =
     (case research_data state of
        None \<Rightarrow>
          ((AgentState (brief state) (target_audience state) (course_duration state))
              \<lparr>error := Some ''No research data available for creating course structure''\<rparr>,
           [Node_started Structure])
      | Some rd \<Rightarrow>
          (case create_structure (structure_agent ags) (brief state) rd
                  (or_empty (target_audience state)) (or_empty (course_duration state)) of
             (Inr cs, tr) \<Rightarrow>
               ((AgentState (brief state) (target_audience state) (course_duration state))
                   \<lparr>research_data := research_data state, course_structure := Some cs\<rparr>,
                Node_started Structure # tr)
           | (Inl e, tr) \<Rightarrow>
               ((AgentState (brief state) (target_audience state) (course_duration state))
                   \<lparr>research_data := research_data state,
                    error := Some (''Structure creation error: '' @ e)\<rparr>,
                Node_started Structure # tr)))"

text \<open>
  \<open>content_data[module_title].append(entry)\<close>. The key was assigned at the top of the
  module's iteration and no key is ever removed, so the lookup always succeeds; on a
  missing key the dictionary is left as it is.
\<close>

definition dict_append :: "content_dict \<Rightarrow> string \<Rightarrow> lesson_dict \<Rightarrow> content_dict" where
  "dict_append d k entry =
     (case map_of d k of
        None \<Rightarrow> d
      | Some lessons \<Rightarrow> AList.update k (lessons @ [entry]) d)"

text \<open>
  The body of the inner loop, with its own \<open>try\<close>/\<open>except\<close>: a lesson whose generation
  raised gets an entry with a diagnostic content and no resources.
\<close>

definition lesson_entry :: "string \<Rightarrow> string + lesson_content \<Rightarrow> lesson_dict" where
  "lesson_entry lesson_title r =
     (case r of
        Inr lc \<Rightarrow> \<lparr>ld_title = lesson_title, ld_content = lc_content lc,
                   ld_resources = lc_resources lc\<rparr>
      | Inl e \<Rightarrow> \<lparr>ld_title = lesson_title, ld_content = ''Error generating content: '' @ e,
                  ld_resources = []\<rparr>)"

definition lesson_step ::
  "agents \<Rightarrow> agent_state \<Rightarrow> structure_data \<Rightarrow> string
     \<Rightarrow> content_dict \<times> event list \<Rightarrow> lesson_skeleton \<Rightarrow> content_dict \<times> event list"
where
  "lesson_step ags state cs module_title acc lesson =
     (case generate_lesson_content (content_agent ags) (cs_course_title cs)
             (cs_course_description cs) module_title (ls_title lesson) (research_data state)
             (or_empty (target_audience state)) (or_empty (course_duration state)) of
        (r, tr) \<Rightarrow>
          (dict_append (fst acc) module_title (lesson_entry (ls_title lesson) r), snd acc @ tr))"

text \<open>The body of the outer loop: the module's key is (re)set to the empty list, then
  the lessons are generated in order.\<close>

definition module_step ::
  "agents \<Rightarrow> agent_state \<Rightarrow> structure_data
     \<Rightarrow> content_dict \<times> event list \<Rightarrow> module_skeleton \<Rightarrow> content_dict \<times> event list"
where
  "module_step ags state cs acc m =
     foldl (lesson_step ags state cs (ms_title m))
       (AList.update (ms_title m) [] (fst acc), snd acc) (ms_lessons m)"

definition generate_course_content :: "agents \<Rightarrow> agent_state \<Rightarrow> agent_state \<times> event list" where
  "generate_course_content ags state =
     (case course_structure state of
        None \<Rightarrow>
          ((AgentState (brief state) (target_audience state) (course_duration state))
              \<lparr>research_data := research_data state,
               error := Some ''No course structure available for generating content''\<rparr>,
           [Node_started Content])
      | Some cs \<Rightarrow>
          (case foldl (module_step ags state cs) ([], [Node_started Content]) (cs_modules cs) of
             (cd, tr) \<Rightarrow>
               ((AgentState (brief state) (target_audience state) (course_duration state))
                   \<lparr>research_data := research_data state,
                    course_structure := course_structure state,
                    content_data := Some cd\<rparr>,
                tr)))"

text \<open>
  \<open>finalize_course\<close>. The lessons of a module are \<open>state.content_data.get(module_title, [])\<close>,
  copied field by field; the references are the research resources when \<open>research_data\<close>
  is truthy and has the key \<open>"resources"\<close>.
\<close>

definition finalize_module :: "content_dict \<Rightarrow> module_skeleton \<Rightarrow> module_dict" where
  "finalize_module cd module_structure =
     \<lparr>md_title = ms_title module_structure,
      md_lessons =
        map (\<lambda>lesson_data. \<lparr>ld_title = ld_title lesson_data, ld_content = ld_content lesson_data,
                              ld_resources = ld_resources lesson_data\<rparr>)
          (case map_of cd (ms_title module_structure) of None \<Rightarrow> [] | Some l \<Rightarrow> l)\<rparr>"

definition gather_references :: "research_dict option \<Rightarrow> string list" where
  "gather_references r =
     (case r of
        Some (Research_parsed rd) \<Rightarrow> rd_resources rd
      | _ \<Rightarrow> [])"

definition finalize_course :: "agent_state \<Rightarrow> agent_state \<times> event list" where
  "finalize_course state =
     (case course_structure state of
        None \<Rightarrow>
          ((AgentState (brief state) (target_audience state) (course_duration state))
              \<lparr>research_data := research_data state,
               error := Some ''Missing course structure for finalizing the course''\<rparr>,
           [Node_started Finalize])
      | Some cs \<Rightarrow>
          (case content_data state of
             Some (kv # cd) \<Rightarrow>
               ((AgentState (brief state) (target_audience state) (course_duration state))
                   \<lparr>research_data := research_data state,
                    course_structure := course_structure state,
                    content_data := content_data state,
                    final_course := Some
                      \<lparr>fc_course_title = cs_course_title cs,
                       fc_description = cs_course_description cs,
                       fc_modules = map (finalize_module (kv # cd)) (cs_modules cs),
                       fc_references = gather_references (research_data state)\<rparr>\<rparr>,
                [Node_started Finalize])
           | _ \<Rightarrow>
               ((AgentState (brief state) (target_audience state) (course_duration state))
                   \<lparr>research_data := research_data state,
                    course_structure := course_structure state,
                    error := Some ''Missing content data for finalizing the course''\<rparr>,
                [Node_started Finalize])))"

definition should_end :: "agent_state \<Rightarrow> string" where
  "should_end state =
     (if truthy_str (error state) then ''end''
      else if final_course state \<noteq> None then ''end''
      else ''continue'')"

subsection \<open>The compiled graph\<close>

text \<open>
  \<open>build_course_generation_graph\<close> adds the four nodes, the unconditional edges
  \<open>research\<close> to \<open>structure\<close>, \<open>structure\<close> to \<open>content\<close>, \<open>content\<close> to \<open>finalize\<close>, and one
  conditional edge after \<open>finalize\<close>: \<open>should_end\<close> routes to \<open>END\<close> on \<open>"end"\<close> and back to
  \<open>finalize\<close> on \<open>"continue"\<close>. The graph library is external; running the compiled graph
  calls the entry node, hands each node's returned state to the node its edge leads to, and
  stops at \<open>END\<close>. (The model replaces the state by the one a node returns. A library
  that instead merges the returned fields into the state it keeps gives the same
  \<open>error\<close> and \<open>final_course\<close> on a request: a request starts with every field but
  the brief, the audience and the duration unset, and on a request a node leaves
  \<open>error\<close> out of its result only when the state it received has none.) The loop on \<open>finalize\<close> has no bound
  in the source, so it is a partial function: \<open>None\<close> stands for a run that never
  reaches \<open>END\<close>.
\<close>

partial_function (option) finalize_node ::
  "agent_state \<times> event list \<Rightarrow> (agent_state \<times> event list) option"
where
  "finalize_node acc =
     (let r = finalize_course (fst acc) in
      if should_end (fst r) = ''end'' then Some (fst r, snd acc @ snd r)
      else finalize_node (fst r, snd acc @ snd r))"

declare finalize_node.simps [code]

definition ainvoke :: "agents \<Rightarrow> agent_state \<Rightarrow> (agent_state \<times> event list) option" where
  "ainvoke ags initial_state =
     (let r1 = research_course_topic ags initial_state;
          r2 = create_course_structure ags (fst r1);
          r3 = generate_course_content ags (fst r2)
      in finalize_node (fst r3, snd r1 @ snd r2 @ snd r3))"

subsection \<open>\<open>generate_course\<close> and the HTTP endpoint\<close>

text \<open>The public response models of \<open>app/models/course.py\<close>.\<close>

record Lesson =
  l_title :: string
  l_content :: string
  l_resources :: "string list"

record Module =
  m_title :: string
  m_lessons :: "Lesson list"

record CourseResponse =
  cr_course_title :: string
  cr_description :: string
  cr_modules :: "Module list"
  cr_references :: "string list"

record CourseRequest =
  rq_brief :: string
  rq_target_audience :: "string option"
  rq_course_duration :: "string option"

definition to_Lesson :: "lesson_dict \<Rightarrow> Lesson" where
  "to_Lesson lesson_data =
     \<lparr>l_title = ld_title lesson_data, l_content = ld_content lesson_data,
      l_resources = ld_resources lesson_data\<rparr>"

definition to_Module :: "module_dict \<Rightarrow> Module" where
  "to_Module module_data =
     \<lparr>m_title = md_title module_data, m_lessons = map to_Lesson (md_lessons module_data)\<rparr>"

definition to_CourseResponse :: "course_dict \<Rightarrow> CourseResponse" where
  "to_CourseResponse final_course_data =
     \<lparr>cr_course_title = fc_course_title final_course_data,
      cr_description = fc_description final_course_data,
      cr_modules = map to_Module (fc_modules final_course_data),
      cr_references = fc_references final_course_data\<rparr>"

text \<open>
  What \<open>generate_course\<close> does with the final state of the graph: \<open>Inl\<close> is the message of
  the \<open>Exception\<close> it raises (its own \<open>except\<close> clause logs and re-raises).
\<close>

definition course_of_result :: "agent_state \<Rightarrow> string + CourseResponse" where
  "course_of_result result =
     (if truthy_str (error result) then
        Inl (''Course generation failed: '' @ or_empty (error result))
      else
        (case final_course result of
           None \<Rightarrow> Inl ''Course generation failed: No final course data available''
         | Some final_course_data \<Rightarrow> Inr (to_CourseResponse final_course_data)))"

definition generate_course ::
  "agents \<Rightarrow> string \<Rightarrow> string option \<Rightarrow> string option
     \<Rightarrow> ((string + CourseResponse) \<times> event list) option"
where
  "generate_course ags b ta cd =
     (case ainvoke ags (AgentState b ta cd) of
        None \<Rightarrow> None
      | Some (result, tr) \<Rightarrow> Some (course_of_result result, tr))"

text \<open>\<open>create_course\<close> in \<open>app/routers/course_router.py\<close>: the course with status 200, or
  an \<open>HTTPException\<close> with its status code and detail.\<close>

datatype http_result = Response_200 CourseResponse | HTTPException nat string

definition create_course :: "agents \<Rightarrow> CourseRequest \<Rightarrow> (http_result \<times> event list) option" where
  "create_course ags course_request =
     (case generate_course ags (rq_brief course_request) (rq_target_audience course_request)
             (rq_course_duration course_request) of
        None \<Rightarrow> None
      | Some (Inr course, tr) \<Rightarrow> Some (Response_200 course, tr)
      | Some (Inl e, tr) \<Rightarrow> Some (HTTPException 500 (''Failed to generate course: '' @ e), tr))"

section \<open>Descriptions used in the statements\<close>

text \<open>
  The lesson entries that the content node generates for one module of the structure:
  one entry per lesson of the module, in order, each from that lesson's own call of
  \<open>generate_lesson_content\<close>.
\<close>

definition generated_lessons ::
  "agents \<Rightarrow> agent_state \<Rightarrow> structure_data \<Rightarrow> module_skeleton \<Rightarrow> lesson_dict list"
where
  "generated_lessons ags state cs m =
     map (\<lambda>lesson. lesson_entry (ls_title lesson)
            (fst (generate_lesson_content (content_agent ags) (cs_course_title cs)
                    (cs_course_description cs) (ms_title m) (ls_title lesson)
                    (research_data state) (or_empty (target_audience state))
                    (or_empty (course_duration state)))))
       (ms_lessons m)"

text \<open>
  What one failing lesson does to \<open>content_data\<close>: the entries under module title \<open>m0\<close>
  whose lesson title is \<open>l0\<close> become the diagnostic entry for the exception text \<open>e\<close>;
  every other entry, and the order of keys and entries, is kept.
\<close>

definition mark_failed :: "string \<Rightarrow> string \<Rightarrow> string \<Rightarrow> content_dict \<Rightarrow> content_dict" where
  "mark_failed m0 l0 e cd =
     map (\<lambda>(t, entries).
            (t, map (\<lambda>entry. if t = m0 \<and> ld_title entry = l0
                               then \<lparr>ld_title = l0,
                                     ld_content = ''Error generating content: '' @ e,
                                     ld_resources = []\<rparr>
                               else entry) entries)) cd"

text \<open>The same agents with another chain behind the content agent.\<close>

definition with_content_chain :: "agents \<Rightarrow> (inputs \<Rightarrow> string + string) \<Rightarrow> agents" where
  "with_content_chain ags chain = ags\<lparr>content_agent := (content_agent ags)\<lparr>ag_chain := chain\<rparr>\<rparr>"

text \<open>
  The section that a block of the research text opens: the first of the four headers, in
  the order in which the parser tests them, that occurs in the block; \<open>None\<close> for a
  block without any header, which continues the section that is open.
\<close>

definition section_header :: "string \<Rightarrow> research_section option" where
  "section_header s =
     (if contains s ''RESEARCH SUMMARY:'' then Some Summary
      else if contains s ''KEY CONCEPTS:'' then Some Key_concepts
      else if contains s ''RESOURCES:'' then Some Resources
      else if contains s ''INSIGHTS:'' then Some Insights
      else None)"

definition headerless :: "string \<Rightarrow> bool" where
  "headerless s = (section_header s = None)"

text \<open>A research response whose four sections are separated by single line breaks only.\<close>

definition unseparated_research_text :: string where
  "unseparated_research_text =
     ''RESEARCH SUMMARY:\<newline>S\<newline>KEY CONCEPTS:\<newline>A\<newline>RESOURCES:\<newline>B\<newline>INSIGHTS:\<newline>C''"

text \<open>A research response in the requested format, with one continuation block.\<close>

definition example_research_text :: string where
  "example_research_text =
     ''RESEARCH SUMMARY:\<newline>S\<newline>\<newline>KEY CONCEPTS:\<newline>A\<newline> B \<newline>\<newline>more\<newline>\<newline>RESOURCES:\<newline>R1\<newline>\<newline>INSIGHTS:\<newline>I''"

text \<open>
  Structure parsing in the words of the specification. A module block is a trimmed block
  that begins with \<open>MODULE \<close> and contains none of the three course headers; its module
  has the trimmed first line as title, and one lesson for each later line that, trimmed,
  begins with \<open>- \<close>; the lesson title is the trimmed text after the first colon of the
  line when it has a colon, and otherwise the trimmed text after the leading \<open>- \<close>.
\<close>

definition is_module_block :: "string \<Rightarrow> bool" where
  "is_module_block block =
     (startswith block ''MODULE '' \<and> \<not> contains block ''COURSE TITLE:''
      \<and> \<not> contains block ''COURSE DESCRIPTION:'' \<and> \<not> contains block ''RATIONALE:'')"

definition is_lesson_line :: "string \<Rightarrow> bool" where
  "is_lesson_line line = startswith line ''- ''"

definition title_of_lesson_line :: "string \<Rightarrow> string" where
  "title_of_lesson_line line =
     (if CHR '':'' \<in> set line
      then strip (tl (dropWhile (\<lambda>c. c \<noteq> CHR '':'') line))
      else strip (drop 2 line))"

definition module_of_block :: "string \<Rightarrow> module_skeleton" where
  "module_of_block block =
     \<lparr>ms_title = strip (hd (split block ''\<newline>'')),
      ms_lessons =
        map (\<lambda>line. \<lparr>ls_title = title_of_lesson_line line, ls_content = []\<rparr>)
          (filter is_lesson_line (map strip (tl (split block ''\<newline>''))))\<rparr>"

text \<open>A structure response whose only module block mentions a course header in a lesson.\<close>

definition shadowed_module_text :: string where
  "shadowed_module_text = ''MODULE 1: Basics\<newline>- Lesson 1.1: RATIONALE: why it matters''"

text \<open>The entries of a trace that record the start of a node function.\<close>

definition is_node_started :: "event \<Rightarrow> bool" where
  "is_node_started ev = (case ev of Node_started n \<Rightarrow> True | Agent_running a \<Rightarrow> False)"

text \<open>
  The states of one request after the research node, after the structure node and after
  the content node, as \<open>ainvoke\<close> threads them.
\<close>

definition after_research :: "agents \<Rightarrow> string \<Rightarrow> string option \<Rightarrow> string option \<Rightarrow> agent_state" where
  "after_research ags b ta cd = fst (research_course_topic ags (AgentState b ta cd))"

definition after_structure :: "agents \<Rightarrow> string \<Rightarrow> string option \<Rightarrow> string option \<Rightarrow> agent_state" where
  "after_structure ags b ta cd = fst (create_course_structure ags (after_research ags b ta cd))"

definition after_content :: "agents \<Rightarrow> string \<Rightarrow> string option \<Rightarrow> string option \<Rightarrow> agent_state" where
  "after_content ags b ta cd = fst (generate_course_content ags (after_structure ags b ta cd))"

section \<open>Example collaborators and requests\<close>

text \<open>
  Concrete chains for the three agents, used to run the pipeline on explicit inputs: a
  research response with a summary and one resource, a structure response with two
  modules (two lessons, then one), and a lesson response in the expected format.
\<close>

definition example_structure_text :: string where
  "example_structure_text =
     ''COURSE TITLE:\<newline>T\<newline>\<newline>MODULE 1: A\<newline>- Lesson 1.1: x\<newline>- y\<newline>\<newline>MODULE 2: B\<newline>- Lesson 2.1: z''"

definition example_agents :: agents where
  "example_agents =
     \<lparr>research_agent =
        \<lparr>ag_name = ''Research Agent'', ag_system_prompt = ''research'',
         ag_chain = (\<lambda>inps. Inr ''RESEARCH SUMMARY:\<newline>S\<newline>\<newline>RESOURCES:\<newline>R1'')\<rparr>,
      structure_agent =
        \<lparr>ag_name = ''Structure Agent'', ag_system_prompt = ''structure'',
         ag_chain = (\<lambda>inps. Inr example_structure_text)\<rparr>,
      content_agent =
        \<lparr>ag_name = ''Content Agent'', ag_system_prompt = ''content'',
         ag_chain = (\<lambda>inps. Inr ''CONTENT:\<newline>Hello\<newline>\<newline>RESOURCES:\<newline>A\<newline>B'')\<rparr>\<rparr>"

text \<open>An agent whose chain raises an exception with the given text on every call.\<close>

definition raising :: "string \<Rightarrow> agent \<Rightarrow> agent" where
  "raising e a = a\<lparr>ag_chain := (\<lambda>inps. Inl e)\<rparr>"

definition failing_research_agents :: agents where
  "failing_research_agents =
     example_agents\<lparr>research_agent := raising ''boom'' (research_agent example_agents)\<rparr>"

definition failing_structure_agents :: agents where
  "failing_structure_agents =
     example_agents\<lparr>structure_agent := raising ''boom'' (structure_agent example_agents)\<rparr>"

definition example_request :: CourseRequest where
  "example_request =
     \<lparr>rq_brief = ''Intro to Microfinance'', rq_target_audience = None,
      rq_course_duration = Some ''6 weeks''\<rparr>"

text \<open>A state as the content node leaves it: two modules, content for the first only.\<close>

definition example_finalize_state :: agent_state where
  "example_finalize_state =
     (AgentState ''b'' None None)
       \<lparr>research_data := Some (Research_parsed (empty_research_data\<lparr>rd_resources := [''R1'']\<rparr>)),
        course_structure := Some (empty_structure_data
          \<lparr>cs_modules := [\<lparr>ms_title = ''M1'', ms_lessons = []\<rparr>,
                          \<lparr>ms_title = ''M2'', ms_lessons = []\<rparr>]\<rparr>),
        content_data := Some [(''M1'', [\<lparr>ld_title = ''x'', ld_content = ''c'', ld_resources = []\<rparr>])]\<rparr>"

text \<open>A state whose course has no module, after the content node: \<open>content_data\<close> is \<open>{}\<close>.\<close>

definition empty_course_state :: agent_state where
  "empty_course_state =
     (AgentState ''b'' None None)
       \<lparr>course_structure := Some empty_structure_data, content_data := Some []\<rparr>"

text \<open>A state after the structure node in which two modules carry the same title.\<close>

definition duplicate_title_structure :: structure_data where
  "duplicate_title_structure =
     empty_structure_data
       \<lparr>cs_modules :=
          [\<lparr>ms_title = ''M'', ms_lessons = [\<lparr>ls_title = ''x'', ls_content = []\<rparr>,
                                            \<lparr>ls_title = ''y'', ls_content = []\<rparr>]\<rparr>,
           \<lparr>ms_title = ''M'', ms_lessons = [\<lparr>ls_title = ''z'', ls_content = []\<rparr>]\<rparr>]\<rparr>"

definition duplicate_title_state :: agent_state where
  "duplicate_title_state =
     (AgentState ''b'' None None)
       \<lparr>research_data := Some (Research_parsed empty_research_data),
        course_structure := Some duplicate_title_structure\<rparr>"

text \<open>
  A state after the structure node for the example structure, and agents whose content
  chain raises for the lesson \<open>y\<close> of the module \<open>MODULE 1: A\<close> only.
\<close>

definition example_content_state :: agent_state where
  "example_content_state =
     (AgentState ''b'' None None)
       \<lparr>research_data := Some (Research_parsed empty_research_data),
        course_structure := Some (parse_structure_result example_structure_text)\<rparr>"

definition failing_lesson_agents :: agents where
  "failing_lesson_agents =
     with_content_chain example_agents
       (\<lambda>inps. if map_of inps ''module_title'' = Some ''MODULE 1: A''
                    \<and> map_of inps ''lesson_title'' = Some ''y''
                 then Inl ''timeout''
                 else ag_chain (content_agent example_agents) inps)"

section \<open>Properties of the content parser\<close>

text \<open>
  Claim C3. On the text \<open>"CONTENT:\nHello\n\nRESOURCES:\nA\nB"\<close> content parsing yields the
  content \<open>"Hello"\<close> and the resources \<open>["A", "B"]\<close>; and for every text in which the
  marker \<open>CONTENT:\<close> or the marker \<open>RESOURCES:\<close> does not occur, the whole raw text
  is the content and the resource list is empty (the function is total: nothing is raised).
\<close>

theorem parse_content_result_spec:
  "parse_content_result ''CONTENT:\<newline>Hello\<newline>\<newline>RESOURCES:\<newline>A\<newline>B''
     = \<lparr>lc_content = ''Hello'', lc_resources = [''A'', ''B'']\<rparr>
   \<and> (\<forall>text. \<not> contains text ''CONTENT:'' \<or> \<not> contains text ''RESOURCES:''
          \<longrightarrow> parse_content_result text = \<lparr>lc_content = text, lc_resources = []\<rparr>)"
proof
  show "parse_content_result ''CONTENT:\<newline>Hello\<newline>\<newline>RESOURCES:\<newline>A\<newline>B''
     = \<lparr>lc_content = ''Hello'', lc_resources = [''A'', ''B'']\<rparr>"
    by code_simp
next
  show "\<forall>text. \<not> contains text ''CONTENT:'' \<or> \<not> contains text ''RESOURCES:''
          \<longrightarrow> parse_content_result text = \<lparr>lc_content = text, lc_resources = []\<rparr>"
    by (auto simp: parse_content_result_def)
qed

theorem parse_content_result_spec_witness:
  "\<not> contains ''CONTENT: no list of links'' ''RESOURCES:''
   \<and> parse_content_result ''CONTENT: no list of links''
       = \<lparr>lc_content = ''CONTENT: no list of links'', lc_resources = []\<rparr>"
proof -
  have h: "\<not> contains ''CONTENT: no list of links'' ''RESOURCES:''"
    by code_simp
  with parse_content_result_spec show ?thesis
    by blast
qed

section \<open>Properties of the orchestrator\<close>

subsection \<open>The finalize node and the end of the graph\<close>

lemma finalize_course_cases:
  "(\<exists>e. error (fst (finalize_course state)) = Some e \<and> e \<noteq> []
        \<and> final_course (fst (finalize_course state)) = None)
   \<or> (\<exists>fc. final_course (fst (finalize_course state)) = Some fc
         \<and> error (fst (finalize_course state)) = None)"
  by (auto simp: finalize_course_def AgentState_def split: option.splits list.splits)

lemma should_end_finalize: "should_end (fst (finalize_course state)) = ''end''"
  using finalize_course_cases [of state]
  by (auto simp: should_end_def truthy_str_def)

lemma finalize_node_once:
  "finalize_node (state, tr) = Some (fst (finalize_course state), tr @ snd (finalize_course state))"
  by (subst finalize_node.simps) (simp add: should_end_finalize Let_def)

text \<open>
  Claim C9. For every input state, the state that the finalize node returns has a
  (non-empty) error or a final course, so \<open>should_end\<close> answers \<open>"end"\<close> after the first
  run of the node: the edge from finalize back to itself is never taken, and the node
  runs exactly once.
\<close>

theorem finalize_sets_error_or_final_course:
  "((\<exists>e. error (fst (finalize_course state)) = Some e \<and> e \<noteq> [])
      \<or> (\<exists>fc. final_course (fst (finalize_course state)) = Some fc))
   \<and> should_end (fst (finalize_course state)) = ''end''
   \<and> finalize_node (state, tr)
        = Some (fst (finalize_course state), tr @ snd (finalize_course state))"
  using finalize_course_cases [of state] should_end_finalize [of state]
    finalize_node_once [of state tr]
  by blast

theorem finalize_sets_error_or_final_course_witness:
  "error (fst (finalize_course (AgentState ''b'' None None)))
     = Some ''Missing course structure for finalizing the course''
   \<and> should_end (fst (finalize_course (AgentState ''b'' None None))) = ''end''
   \<and> finalize_node (AgentState ''b'' None None, [])
        = Some (fst (finalize_course (AgentState ''b'' None None)), [Node_started Finalize])"
proof -
  have "error (fst (finalize_course (AgentState ''b'' None None)))
          = Some ''Missing course structure for finalizing the course''"
    and "snd (finalize_course (AgentState ''b'' None None)) = [Node_started Finalize]"
    by (simp_all add: finalize_course_def AgentState_def)
  with finalize_sets_error_or_final_course [of "AgentState ''b'' None None" "[]"]
  show ?thesis by simp
qed

lemma ainvoke_eq:
  "ainvoke ags s0 =
     Some (fst (finalize_course (fst (generate_course_content ags
                  (fst (create_course_structure ags (fst (research_course_topic ags s0))))))),
           snd (research_course_topic ags s0)
           @ snd (create_course_structure ags (fst (research_course_topic ags s0)))
           @ snd (generate_course_content ags
                    (fst (create_course_structure ags (fst (research_course_topic ags s0)))))
           @ snd (finalize_course (fst (generate_course_content ags
                    (fst (create_course_structure ags (fst (research_course_topic ags s0))))))))"
  by (simp add: ainvoke_def Let_def finalize_node_once)

lemma course_of_result_finalize:
  "course_of_result (fst (finalize_course s)) =
     (case error (fst (finalize_course s)) of
        Some e \<Rightarrow> Inl (''Course generation failed: '' @ e)
      | None \<Rightarrow> (case final_course (fst (finalize_course s)) of
                    None \<Rightarrow> Inl ''Course generation failed: No final course data available''
                  | Some fc \<Rightarrow> Inr (to_CourseResponse fc)))"
  using finalize_course_cases [of s]
  by (auto simp: course_of_result_def truthy_str_def or_empty_def)

lemma terminal_error_not_empty:
  "error (fst (finalize_course s)) = Some e \<Longrightarrow> e \<noteq> []"
  using finalize_course_cases [of s] by auto

text \<open>
  Claim C8. What \<open>generate_course\<close> does with a terminal state \<open>result\<close>, for every state:
  when \<open>error\<close> is set (a non-empty string, as the code tests truthiness) it raises
  \<open>Course generation failed: <error>\<close>; otherwise, when \<open>final_course\<close> is unset, it raises
  \<open>Course generation failed: No final course data available\<close>; otherwise it returns the
  \<open>CourseResponse\<close> with the title, description and references of \<open>final_course\<close> and,
  for each of its modules in order, the module's title and its lessons with their title,
  content and resources. The graph always reaches a terminal state; there a set error is
  never the empty string, \<open>generate_course\<close> yields the outcome just described, and the
  endpoint answers a raised failure with status 500 and the detail
  \<open>Failed to generate course: <message>\<close> and a returned course with status 200.
\<close>

theorem generate_course_terminal:
  "(\<forall>result e. error result = Some e \<and> e \<noteq> [] \<longrightarrow>
       course_of_result result = Inl (''Course generation failed: '' @ e))
   \<and> (\<forall>result. (error result = None \<or> error result = Some []) \<and> final_course result = None \<longrightarrow>
       course_of_result result
         = Inl ''Course generation failed: No final course data available'')
   \<and> (\<forall>result fc. (error result = None \<or> error result = Some [])
           \<and> final_course result = Some fc \<longrightarrow>
       course_of_result result
         = Inr \<lparr>cr_course_title = fc_course_title fc,
                cr_description = fc_description fc,
                cr_modules =
                  map (\<lambda>m. \<lparr>m_title = md_title m,
                              m_lessons =
                                map (\<lambda>l. \<lparr>l_title = ld_title l, l_content = ld_content l,
                                           l_resources = ld_resources l\<rparr>) (md_lessons m)\<rparr>)
                    (fc_modules fc),
                cr_references = fc_references fc\<rparr>)
   \<and> (\<exists>result tr.
         ainvoke ags (AgentState (rq_brief req) (rq_target_audience req) (rq_course_duration req))
           = Some (result, tr)
         \<and> (\<forall>e. error result = Some e \<longrightarrow> e \<noteq> [])
         \<and> generate_course ags (rq_brief req) (rq_target_audience req) (rq_course_duration req)
             = Some (course_of_result result, tr)
         \<and> create_course ags req
             = Some (case course_of_result result of
                       Inl message \<Rightarrow>
                         HTTPException 500 (''Failed to generate course: '' @ message)
                     | Inr course \<Rightarrow> Response_200 course, tr))"
proof (intro conjI allI impI)
  fix result :: agent_state and e
  assume "error result = Some e \<and> e \<noteq> []"
  then show "course_of_result result = Inl (''Course generation failed: '' @ e)"
    by (simp add: course_of_result_def truthy_str_def or_empty_def)
next
  fix result :: agent_state
  assume "(error result = None \<or> error result = Some []) \<and> final_course result = None"
  then show "course_of_result result
               = Inl ''Course generation failed: No final course data available''"
    by (auto simp: course_of_result_def truthy_str_def)
next
  fix result :: agent_state and fc
  assume "(error result = None \<or> error result = Some []) \<and> final_course result = Some fc"
  then show "course_of_result result
         = Inr \<lparr>cr_course_title = fc_course_title fc,
                cr_description = fc_description fc,
                cr_modules =
                  map (\<lambda>m. \<lparr>m_title = md_title m,
                              m_lessons =
                                map (\<lambda>l. \<lparr>l_title = ld_title l, l_content = ld_content l,
                                           l_resources = ld_resources l\<rparr>) (md_lessons m)\<rparr>)
                    (fc_modules fc),
                cr_references = fc_references fc\<rparr>"
    by (auto simp: course_of_result_def truthy_str_def to_CourseResponse_def to_Module_def
        to_Lesson_def fun_eq_iff)
next
  show "\<exists>result tr.
         ainvoke ags (AgentState (rq_brief req) (rq_target_audience req) (rq_course_duration req))
           = Some (result, tr)
         \<and> (\<forall>e. error result = Some e \<longrightarrow> e \<noteq> [])
         \<and> generate_course ags (rq_brief req) (rq_target_audience req) (rq_course_duration req)
             = Some (course_of_result result, tr)
         \<and> create_course ags req
             = Some (case course_of_result result of
                       Inl message \<Rightarrow>
                         HTTPException 500 (''Failed to generate course: '' @ message)
                     | Inr course \<Rightarrow> Response_200 course, tr)"
    apply (simp only: ainvoke_eq generate_course_def create_course_def option.case prod.case)
    apply (intro exI conjI)
       apply (rule refl)
      apply (blast dest: terminal_error_not_empty)
     apply (rule refl)
    apply (simp split: sum.splits)
    done
qed

theorem generate_course_terminal_witness:
  "create_course failing_structure_agents example_request
     = Some (HTTPException 500
               ''Failed to generate course: Course generation failed: Missing course structure for finalizing the course'',
             [Node_started Research, Agent_running ''Research Agent'', Node_started Structure,
              Agent_running ''Structure Agent'', Node_started Content, Node_started Finalize])
   \<and> create_course example_agents example_request
     = Some (Response_200
               \<lparr>cr_course_title = ''T'', cr_description = [],
                cr_modules =
                  [\<lparr>m_title = ''MODULE 1: A'',
                    m_lessons =
                      [\<lparr>l_title = ''x'', l_content = ''Hello'', l_resources = [''A'', ''B'']\<rparr>,
                       \<lparr>l_title = ''y'', l_content = ''Hello'', l_resources = [''A'', ''B'']\<rparr>]\<rparr>,
                   \<lparr>m_title = ''MODULE 2: B'',
                    m_lessons =
                      [\<lparr>l_title = ''z'', l_content = ''Hello'', l_resources = [''A'', ''B'']\<rparr>]\<rparr>],
                cr_references = [''R1'']\<rparr>,
             [Node_started Research, Agent_running ''Research Agent'', Node_started Structure,
              Agent_running ''Structure Agent'', Node_started Content,
              Agent_running ''Content Agent'', Agent_running ''Content Agent'',
              Agent_running ''Content Agent'', Node_started Finalize])
   \<and> course_of_result (AgentState ''b'' None None)
     = Inl ''Course generation failed: No final course data available''"
proof -
  let ?s0 = "AgentState (rq_brief example_request) (rq_target_audience example_request)
               (rq_course_duration example_request)"
  let ?fc = "\<lparr>fc_course_title = ''T'', fc_description = [],
              fc_modules =
                [\<lparr>md_title = ''MODULE 1: A'',
                  md_lessons =
                    [\<lparr>ld_title = ''x'', ld_content = ''Hello'', ld_resources = [''A'', ''B'']\<rparr>,
                     \<lparr>ld_title = ''y'', ld_content = ''Hello'', ld_resources = [''A'', ''B'']\<rparr>]\<rparr>,
                 \<lparr>md_title = ''MODULE 2: B'',
                  md_lessons =
                    [\<lparr>ld_title = ''z'', ld_content = ''Hello'', ld_resources = [''A'', ''B'']\<rparr>]\<rparr>],
              fc_references = [''R1'']\<rparr>"
  note spec = generate_course_terminal
  have e1: "map_option (\<lambda>r. (error (fst r), snd r)) (ainvoke failing_structure_agents ?s0)
           = Some (Some ''Missing course structure for finalizing the course'',
                   [Node_started Research, Agent_running ''Research Agent'', Node_started Structure,
                    Agent_running ''Structure Agent'', Node_started Content, Node_started Finalize])"
    by code_simp
  from spec [of failing_structure_agents example_request]
  obtain r1 t1 where
    a1: "ainvoke failing_structure_agents ?s0 = Some (r1, t1)"
    and c1: "create_course failing_structure_agents example_request
         = Some (case course_of_result r1 of
                   Inl message \<Rightarrow> HTTPException 500 (''Failed to generate course: '' @ message)
                 | Inr course \<Rightarrow> Response_200 course, t1)"
    by blast
  from e1 a1 have r1: "error r1 = Some ''Missing course structure for finalizing the course''"
    and t1: "t1 = [Node_started Research, Agent_running ''Research Agent'', Node_started Structure,
              Agent_running ''Structure Agent'', Node_started Content, Node_started Finalize]"
    by simp_all
  from spec [of failing_structure_agents example_request] r1
  have "course_of_result r1
          = Inl (''Course generation failed: ''
                 @ ''Missing course structure for finalizing the course'')"
    by blast
  with c1 t1 have w1: "create_course failing_structure_agents example_request
     = Some (HTTPException 500
               ''Failed to generate course: Course generation failed: Missing course structure for finalizing the course'',
             [Node_started Research, Agent_running ''Research Agent'', Node_started Structure,
              Agent_running ''Structure Agent'', Node_started Content, Node_started Finalize])"
    by simp
  have e2: "map_option (\<lambda>r. (error (fst r), final_course (fst r), snd r))
              (ainvoke example_agents ?s0)
           = Some (None, Some ?fc,
                   [Node_started Research, Agent_running ''Research Agent'', Node_started Structure,
                    Agent_running ''Structure Agent'', Node_started Content,
                    Agent_running ''Content Agent'', Agent_running ''Content Agent'',
                    Agent_running ''Content Agent'', Node_started Finalize])"
    by code_simp
  from spec [of example_agents example_request]
  obtain r2 t2 where
    a2: "ainvoke example_agents ?s0 = Some (r2, t2)"
    and c2: "create_course example_agents example_request
         = Some (case course_of_result r2 of
                   Inl message \<Rightarrow> HTTPException 500 (''Failed to generate course: '' @ message)
                 | Inr course \<Rightarrow> Response_200 course, t2)"
    by blast
  from e2 a2 have r2: "error r2 = None" "final_course r2 = Some ?fc"
    and t2: "t2 = [Node_started Research, Agent_running ''Research Agent'', Node_started Structure,
                    Agent_running ''Structure Agent'', Node_started Content,
                    Agent_running ''Content Agent'', Agent_running ''Content Agent'',
                    Agent_running ''Content Agent'', Node_started Finalize]"
    by simp_all
  from spec [of example_agents example_request] r2
  have "course_of_result r2
         = Inr \<lparr>cr_course_title = fc_course_title ?fc,
                cr_description = fc_description ?fc,
                cr_modules =
                  map (\<lambda>m. \<lparr>m_title = md_title m,
                              m_lessons =
                                map (\<lambda>l. \<lparr>l_title = ld_title l, l_content = ld_content l,
                                           l_resources = ld_resources l\<rparr>) (md_lessons m)\<rparr>)
                    (fc_modules ?fc),
                cr_references = fc_references ?fc\<rparr>"
    by blast
  with c2 t2 have w2: "create_course example_agents example_request
     = Some (Response_200
               \<lparr>cr_course_title = ''T'', cr_description = [],
                cr_modules =
                  [\<lparr>m_title = ''MODULE 1: A'',
                    m_lessons =
                      [\<lparr>l_title = ''x'', l_content = ''Hello'', l_resources = [''A'', ''B'']\<rparr>,
                       \<lparr>l_title = ''y'', l_content = ''Hello'', l_resources = [''A'', ''B'']\<rparr>]\<rparr>,
                   \<lparr>m_title = ''MODULE 2: B'',
                    m_lessons =
                      [\<lparr>l_title = ''z'', l_content = ''Hello'', l_resources = [''A'', ''B'']\<rparr>]\<rparr>],
                cr_references = [''R1'']\<rparr>,
             [Node_started Research, Agent_running ''Research Agent'', Node_started Structure,
              Agent_running ''Structure Agent'', Node_started Content,
              Agent_running ''Content Agent'', Agent_running ''Content Agent'',
              Agent_running ''Content Agent'', Node_started Finalize])"
    by simp
  have "error (AgentState ''b'' None None) = None"
    "final_course (AgentState ''b'' None None) = None"
    by (simp_all add: AgentState_def)
  with spec [of failing_structure_agents example_request]
  have w3: "course_of_result (AgentState ''b'' None None)
              = Inl ''Course generation failed: No final course data available''"
    by blast
  from w1 w2 w3 show ?thesis by blast
qed

subsection \<open>The finalize node assembles the course\<close>

lemma lesson_dict_copy:
  "map (\<lambda>lesson_data. \<lparr>ld_title = ld_title lesson_data, ld_content = ld_content lesson_data,
                         ld_resources = ld_resources lesson_data\<rparr>) l = l"
  by (induction l) simp_all

lemma finalize_course_result:
  assumes "course_structure state = Some cs"
    and "content_data state = Some cd"
    and "cd \<noteq> []"
  shows "final_course (fst (finalize_course state))
           = Some \<lparr>fc_course_title = cs_course_title cs,
                   fc_description = cs_course_description cs,
                   fc_modules =
                     map (\<lambda>m. \<lparr>md_title = ms_title m,
                                 md_lessons = (case map_of cd (ms_title m) of
                                                 None \<Rightarrow> []
                                               | Some lessons \<Rightarrow> lessons)\<rparr>) (cs_modules cs),
                   fc_references =
                     (case research_data state of
                        None \<Rightarrow> []
                      | Some (Research_error e) \<Rightarrow> []
                      | Some (Research_parsed rd) \<Rightarrow> rd_resources rd)\<rparr>
         \<and> error (fst (finalize_course state)) = None"
  using assms
  by (cases cd)
     (auto simp: finalize_course_def AgentState_def finalize_module_def lesson_dict_copy
        gather_references_def split: option.splits research_dict.splits)

lemma finalize_course_empty:
  assumes "course_structure state = Some cs"
    and "content_data state = Some []"
  shows "final_course (fst (finalize_course state)) = None
         \<and> error (fst (finalize_course state))
             = Some ''Missing content data for finalizing the course''"
  using assms by (simp add: finalize_course_def AgentState_def)

text \<open>
  Claim C7, as stated, fails on a state whose \<open>content_data\<close> is present but empty (the
  content node produces \<open>{}\<close> for a course without modules): \<open>if not state.content_data\<close>
  treats the empty dictionary as missing, and the node returns an error instead of a
  final course.
\<close>

theorem finalize_course_counterexample:
  "course_structure empty_course_state = Some empty_structure_data
   \<and> content_data empty_course_state = Some []
   \<and> final_course (fst (finalize_course empty_course_state)) = None
   \<and> error (fst (finalize_course empty_course_state))
     = Some ''Missing content data for finalizing the course''"
  by (simp add: finalize_course_def AgentState_def empty_course_state_def)

text \<open>
  Claim C7, amended. Given a state with \<open>course_structure\<close> present and \<open>content_data\<close>
  present and non-empty, the finalize node sets no error and produces a final course with
  the title and description of the structure, one module per module of the structure, in
  order, whose lessons are the entry of \<open>content_data\<close> under exactly that module's title
  (the empty list when there is none), and whose references are the resources of
  \<open>research_data\<close> when it is present and has them, the empty list otherwise. Given a
  state with \<open>course_structure\<close> present and \<open>content_data\<close> present but empty, the node
  returns the error \<open>Missing content data for finalizing the course\<close> and no final course.
\<close>

theorem finalize_course_assembles:
  assumes "course_structure state = Some cs"
    and "content_data state = Some cd"
  shows "(cd \<noteq> [] \<longrightarrow>
            final_course (fst (finalize_course state))
              = Some \<lparr>fc_course_title = cs_course_title cs,
                      fc_description = cs_course_description cs,
                      fc_modules =
                        map (\<lambda>m. \<lparr>md_title = ms_title m,
                                    md_lessons = (case map_of cd (ms_title m) of
                                                    None \<Rightarrow> []
                                                  | Some lessons \<Rightarrow> lessons)\<rparr>) (cs_modules cs),
                      fc_references =
                        (case research_data state of
                           None \<Rightarrow> []
                         | Some (Research_error e) \<Rightarrow> []
                         | Some (Research_parsed rd) \<Rightarrow> rd_resources rd)\<rparr>
            \<and> error (fst (finalize_course state)) = None)
         \<and> (cd = [] \<longrightarrow>
            final_course (fst (finalize_course state)) = None
            \<and> error (fst (finalize_course state))
                = Some ''Missing content data for finalizing the course'')"
  using finalize_course_result [OF assms] finalize_course_empty [OF assms(1)] assms(2)
  by blast

theorem finalize_course_assembles_witness:
  "final_course (fst (finalize_course example_finalize_state))
     = Some \<lparr>fc_course_title = [], fc_description = [],
             fc_modules =
               [\<lparr>md_title = ''M1'',
                 md_lessons = [\<lparr>ld_title = ''x'', ld_content = ''c'', ld_resources = []\<rparr>]\<rparr>,
                \<lparr>md_title = ''M2'', md_lessons = []\<rparr>],
             fc_references = [''R1'']\<rparr>
   \<and> error (fst (finalize_course example_finalize_state)) = None
   \<and> final_course (fst (finalize_course
        ((AgentState ''b'' None None)
           \<lparr>course_structure := Some duplicate_title_structure, content_data := Some []\<rparr>))) = None
   \<and> error (fst (finalize_course
        ((AgentState ''b'' None None)
           \<lparr>course_structure := Some duplicate_title_structure, content_data := Some []\<rparr>)))
       = Some ''Missing content data for finalizing the course''"
  using finalize_course_assembles [of example_finalize_state
      "empty_structure_data\<lparr>cs_modules := [\<lparr>ms_title = ''M1'', ms_lessons = []\<rparr>,
                                             \<lparr>ms_title = ''M2'', ms_lessons = []\<rparr>]\<rparr>"
      "[(''M1'', [\<lparr>ld_title = ''x'', ld_content = ''c'', ld_resources = []\<rparr>])]"]
    finalize_course_assembles [of "(AgentState ''b'' None None)
           \<lparr>course_structure := Some duplicate_title_structure, content_data := Some []\<rparr>"
      duplicate_title_structure "[]"]
  by (simp add: example_finalize_state_def AgentState_def empty_structure_data_def
      empty_research_data_def)

subsection \<open>The content node: what the fan-out builds\<close>

lemma lesson_loop_dict:
  "map_of d t = Some l0 \<Longrightarrow>
   fst (foldl (lesson_step ags state cs t) (d, tr) ls)
     = AList.update t (l0 @ map (\<lambda>lesson. lesson_entry (ls_title lesson)
            (fst (generate_lesson_content (content_agent ags) (cs_course_title cs)
                    (cs_course_description cs) t (ls_title lesson)
                    (research_data state) (or_empty (target_audience state))
                    (or_empty (course_duration state))))) ls) d"
proof (induction ls arbitrary: d tr l0)
  case Nil
  then show ?case by (simp add: update_triv)
next
  case (Cons a ls)
  let ?e = "lesson_entry (ls_title a)
            (fst (generate_lesson_content (content_agent ags) (cs_course_title cs)
                    (cs_course_description cs) t (ls_title a)
                    (research_data state) (or_empty (target_audience state))
                    (or_empty (course_duration state))))"
  have step: "fst (lesson_step ags state cs t (d, tr) a) = AList.update t (l0 @ [?e]) d"
    using Cons.prems by (simp add: lesson_step_def dict_append_def split: prod.splits)
  have look: "map_of (AList.update t (l0 @ [?e]) d) t = Some (l0 @ [?e])"
    by (simp add: update_conv')
  obtain d' tr' where st: "lesson_step ags state cs t (d, tr) a = (d', tr')"
    by (cases "lesson_step ags state cs t (d, tr) a")
  with step have d': "d' = AList.update t (l0 @ [?e]) d" by simp
  show ?case
    using Cons.IH [of d' "l0 @ [?e]" tr'] look
    by (simp add: st d' update_last)
qed

lemma module_step_dict:
  "fst (module_step ags state cs acc m)
     = AList.update (ms_title m) (generated_lessons ags state cs m) (fst acc)"
  using lesson_loop_dict [of "AList.update (ms_title m) [] (fst acc)" "ms_title m" "[]"
      ags state cs "snd acc" "ms_lessons m"]
  by (simp add: module_step_def generated_lessons_def update_conv' update_last)

lemma module_loop_dict:
  "fst (foldl (module_step ags state cs) acc ms)
     = foldl (\<lambda>d m. AList.update (ms_title m) (generated_lessons ags state cs m) d) (fst acc) ms"
  by (induction ms arbitrary: acc) (simp_all add: module_step_dict)

lemma map_of_update_loop:
  "map_of (foldl (\<lambda>d m. AList.update (ms_title m) (f m) d) d0 ms) t
     = (if filter (\<lambda>m. ms_title m = t) ms = [] then map_of d0 t
        else Some (f (last (filter (\<lambda>m. ms_title m = t) ms))))"
  by (induction ms rule: rev_induct) (simp_all add: update_conv')

lemma generate_course_content_Some:
  assumes "course_structure state = Some cs"
  shows "fst (generate_course_content ags state)
           = (AgentState (brief state) (target_audience state) (course_duration state))
               \<lparr>research_data := research_data state,
                course_structure := Some cs,
                content_data := Some
                  (foldl (\<lambda>d m. AList.update (ms_title m) (generated_lessons ags state cs m) d)
                     [] (cs_modules cs))\<rparr>"
  using assms module_loop_dict [of ags state cs "([], [Node_started Content])" "cs_modules cs"]
  by (auto simp: generate_course_content_def split: prod.splits)

text \<open>
  Claim C10. When two modules of the structure (at positions \<open>i < j\<close>) have equal titles,
  the content node builds \<open>content_data\<close> as a dictionary keyed by title whose entry is
  reset when each module starts, so after the finalize node both modules of the final
  course carry one and the same lesson list: the lessons generated for the last module
  with that title. The lessons generated for the earlier module are lost.
\<close>

theorem duplicate_titles_share_lessons:
  assumes "course_structure state = Some cs"
    and "i < j" and "j < length (cs_modules cs)"
    and "ms_title (cs_modules cs ! i) = ms_title (cs_modules cs ! j)"
  shows "\<exists>fc. final_course (fst (finalize_course (fst (generate_course_content ags state))))
                = Some fc
           \<and> md_lessons (fc_modules fc ! i) = md_lessons (fc_modules fc ! j)
           \<and> md_lessons (fc_modules fc ! j)
               = generated_lessons ags state cs
                   (last (filter (\<lambda>m. ms_title m = ms_title (cs_modules cs ! j)) (cs_modules cs)))"
proof -
  let ?ms = "cs_modules cs"
  let ?cd = "foldl (\<lambda>d m. AList.update (ms_title m) (generated_lessons ags state cs m) d) [] ?ms"
  let ?s1 = "fst (generate_course_content ags state)"
  let ?t = "ms_title (?ms ! j)"
  have s1: "course_structure ?s1 = Some cs" "content_data ?s1 = Some ?cd"
    using generate_course_content_Some [OF assms(1), of ags] by (simp_all add: AgentState_def)
  have mem: "?ms ! j \<in> set ?ms" "?ms ! i \<in> set ?ms"
    using assms(2,3) by simp_all
  then have ne: "filter (\<lambda>m. ms_title m = ?t) ?ms \<noteq> []"
    by (auto simp: filter_empty_conv)
  have look: "map_of ?cd ?t
      = Some (generated_lessons ags state cs (last (filter (\<lambda>m. ms_title m = ?t) ?ms)))"
    using ne by (simp add: map_of_update_loop)
  then have "?cd \<noteq> []" by auto
  from finalize_course_result [OF s1 this]
  have fc: "final_course (fst (finalize_course ?s1))
           = Some \<lparr>fc_course_title = cs_course_title cs,
                   fc_description = cs_course_description cs,
                   fc_modules =
                     map (\<lambda>m. \<lparr>md_title = ms_title m,
                                 md_lessons = (case map_of ?cd (ms_title m) of
                                                 None \<Rightarrow> []
                                               | Some lessons \<Rightarrow> lessons)\<rparr>) ?ms,
                   fc_references =
                     (case research_data ?s1 of
                        None \<Rightarrow> []
                      | Some (Research_error e) \<Rightarrow> []
                      | Some (Research_parsed rd) \<Rightarrow> rd_resources rd)\<rparr>"
    by simp
  show ?thesis
    using assms(2,3,4) look by (simp add: fc)
qed

theorem duplicate_titles_share_lessons_witness:
  "\<exists>fc. final_course (fst (finalize_course
            (fst (generate_course_content example_agents duplicate_title_state)))) = Some fc
     \<and> md_lessons (fc_modules fc ! 0) = md_lessons (fc_modules fc ! 1)
     \<and> md_lessons (fc_modules fc ! 1)
         = [\<lparr>ld_title = ''z'', ld_content = ''Hello'', ld_resources = [''A'', ''B'']\<rparr>]"
proof -
  have cs: "course_structure duplicate_title_state = Some duplicate_title_structure"
    by (simp add: duplicate_title_state_def AgentState_def)
  have len: "(0::nat) < 1" "1 < length (cs_modules duplicate_title_structure)"
    and eq: "ms_title (cs_modules duplicate_title_structure ! 0)
              = ms_title (cs_modules duplicate_title_structure ! 1)"
    by (simp_all add: duplicate_title_structure_def empty_structure_data_def)
  have g: "generated_lessons example_agents duplicate_title_state duplicate_title_structure
             (last (filter (\<lambda>m. ms_title m = ms_title (cs_modules duplicate_title_structure ! 1))
                      (cs_modules duplicate_title_structure)))
           = [\<lparr>ld_title = ''z'', ld_content = ''Hello'', ld_resources = [''A'', ''B'']\<rparr>]"
    by code_simp
  from duplicate_titles_share_lessons [OF cs len eq, of example_agents] g
  show ?thesis by simp
qed


subsection \<open>The content node: one failing lesson\<close>

lemma mark_failed_update:
  "AList.update t (map (\<lambda>entry. if t = m0 \<and> ld_title entry = l0
                               then \<lparr>ld_title = l0,
                                     ld_content = ''Error generating content: '' @ e,
                                     ld_resources = []\<rparr>
                               else entry) v) (mark_failed m0 l0 e d)
     = mark_failed m0 l0 e (AList.update t v d)"
  by (induction d) (auto simp: mark_failed_def)

lemma map_of_mark_failed:
  "map_of (mark_failed m0 l0 e d) t
     = map_option (map (\<lambda>entry. if t = m0 \<and> ld_title entry = l0
                               then \<lparr>ld_title = l0,
                                     ld_content = ''Error generating content: '' @ e,
                                     ld_resources = []\<rparr>
                               else entry)) (map_of d t)"
  by (induction d) (auto simp: mark_failed_def)

lemma ld_title_lesson_entry [simp]: "ld_title (lesson_entry t r) = t"
  by (cases r) (simp_all add: lesson_entry_def)

lemma lesson_step_mark_failed:
  assumes fail: "\<And>inps. map_of inps ''module_title'' = Some m0 \<Longrightarrow>
                   map_of inps ''lesson_title'' = Some l0 \<Longrightarrow>
                   ag_chain (content_agent ags) inps = Inl e"
    and same: "\<And>inps. \<not> (map_of inps ''module_title'' = Some m0 \<and>
                        map_of inps ''lesson_title'' = Some l0) \<Longrightarrow>
                   ag_chain (content_agent ags) inps = chain' inps"
    and rd: "research_data state = Some rd"
  shows "lesson_step ags state cs t (mark_failed m0 l0 e d, tr) lesson
           = (mark_failed m0 l0 e (fst (lesson_step (with_content_chain ags chain') state cs t (d, tr) lesson)),
              snd (lesson_step (with_content_chain ags chain') state cs t (d, tr) lesson))"
proof (cases "t = m0 \<and> ls_title lesson = l0")
  case True
  then show ?thesis
    using rd
    apply (simp add: lesson_step_def generate_lesson_content_def run_def with_content_chain_def
        fail update_conv' split: prod.splits sum.splits)
    apply (simp add: dict_append_def map_of_mark_failed lesson_entry_def
        mark_failed_update [symmetric] split: option.splits sum.splits)
    done
next
  case False
  then have "\<not> (map_of (AList.update ''context'' [] 
       [(''system_prompt'', ag_system_prompt (content_agent ags)), (''course_title'', cs_course_title cs),
                       (''course_description'', cs_course_description cs),
                       (''module_title'', t), (''lesson_title'', ls_title lesson),
                       (''audience'', or_empty (target_audience state)), (''duration'', or_empty (course_duration state)),
                       (''research_info'', research_info rd)]) ''module_title'' = Some m0 \<and>
       map_of (AList.update ''context'' [] 
       [(''system_prompt'', ag_system_prompt (content_agent ags)), (''course_title'', cs_course_title cs),
                       (''course_description'', cs_course_description cs),
                       (''module_title'', t), (''lesson_title'', ls_title lesson),
                       (''audience'', or_empty (target_audience state)), (''duration'', or_empty (course_duration state)),
                       (''research_info'', research_info rd)]) ''lesson_title'' = Some l0)"
    by (simp add: update_conv')
  from same [OF this] False show ?thesis
    using rd
    apply (simp add: lesson_step_def generate_lesson_content_def run_def with_content_chain_def
        split: prod.splits sum.splits)
    apply (auto simp add: dict_append_def map_of_mark_failed lesson_entry_def
        mark_failed_update [symmetric] split: option.splits sum.splits)
    done
qed


lemma lesson_loop_mark_failed:
  assumes fail: "\<And>inps. map_of inps ''module_title'' = Some m0 \<Longrightarrow>
                   map_of inps ''lesson_title'' = Some l0 \<Longrightarrow>
                   ag_chain (content_agent ags) inps = Inl e"
    and same: "\<And>inps. \<not> (map_of inps ''module_title'' = Some m0 \<and>
                        map_of inps ''lesson_title'' = Some l0) \<Longrightarrow>
                   ag_chain (content_agent ags) inps = chain' inps"
    and rd: "research_data state = Some rd"
  shows "foldl (lesson_step ags state cs t) (mark_failed m0 l0 e d, tr) ls
           = (mark_failed m0 l0 e
                (fst (foldl (lesson_step (with_content_chain ags chain') state cs t) (d, tr) ls)),
              snd (foldl (lesson_step (with_content_chain ags chain') state cs t) (d, tr) ls))"
proof (induction ls arbitrary: d tr)
  case Nil
  show ?case by simp
next
  case (Cons l ls)
  obtain d' tr' where st:
    "lesson_step (with_content_chain ags chain') state cs t (d, tr) l = (d', tr')"
    by (cases "lesson_step (with_content_chain ags chain') state cs t (d, tr) l")
  show ?case
    using Cons.IH [of d' tr'] lesson_step_mark_failed [OF fail same rd, where cs=cs and t=t and d=d and tr=tr and lesson=l]
    by (simp add: st)
qed

lemma module_step_mark_failed:
  assumes fail: "\<And>inps. map_of inps ''module_title'' = Some m0 \<Longrightarrow>
                   map_of inps ''lesson_title'' = Some l0 \<Longrightarrow>
                   ag_chain (content_agent ags) inps = Inl e"
    and same: "\<And>inps. \<not> (map_of inps ''module_title'' = Some m0 \<and>
                        map_of inps ''lesson_title'' = Some l0) \<Longrightarrow>
                   ag_chain (content_agent ags) inps = chain' inps"
    and rd: "research_data state = Some rd"
  shows "module_step ags state cs (mark_failed m0 l0 e d, tr) m
           = (mark_failed m0 l0 e
                (fst (module_step (with_content_chain ags chain') state cs (d, tr) m)),
              snd (module_step (with_content_chain ags chain') state cs (d, tr) m))"
  using lesson_loop_mark_failed [OF fail same rd, where cs=cs and t="ms_title m"
      and d="AList.update (ms_title m) [] d" and tr=tr and ls="ms_lessons m"]
    mark_failed_update [of "ms_title m" m0 l0 e "[]" d]
  by (simp add: module_step_def)

lemma module_loop_mark_failed:
  assumes fail: "\<And>inps. map_of inps ''module_title'' = Some m0 \<Longrightarrow>
                   map_of inps ''lesson_title'' = Some l0 \<Longrightarrow>
                   ag_chain (content_agent ags) inps = Inl e"
    and same: "\<And>inps. \<not> (map_of inps ''module_title'' = Some m0 \<and>
                        map_of inps ''lesson_title'' = Some l0) \<Longrightarrow>
                   ag_chain (content_agent ags) inps = chain' inps"
    and rd: "research_data state = Some rd"
  shows "foldl (module_step ags state cs) (mark_failed m0 l0 e d, tr) ms
           = (mark_failed m0 l0 e
                (fst (foldl (module_step (with_content_chain ags chain') state cs) (d, tr) ms)),
              snd (foldl (module_step (with_content_chain ags chain') state cs) (d, tr) ms))"
proof (induction ms arbitrary: d tr)
  case Nil
  show ?case by simp
next
  case (Cons m ms)
  obtain d' tr' where st:
    "module_step (with_content_chain ags chain') state cs (d, tr) m = (d', tr')"
    by (cases "module_step (with_content_chain ags chain') state cs (d, tr) m")
  show ?case
    using Cons.IH [of d' tr'] module_step_mark_failed [OF fail same rd, where cs=cs and d=d and tr=tr and m=m]
    by (simp add: st)
qed

lemma generate_course_content_mark_failed:
  assumes fail: "\<And>inps. map_of inps ''module_title'' = Some m0 \<Longrightarrow>
                   map_of inps ''lesson_title'' = Some l0 \<Longrightarrow>
                   ag_chain (content_agent ags) inps = Inl e"
    and same: "\<And>inps. \<not> (map_of inps ''module_title'' = Some m0 \<and>
                        map_of inps ''lesson_title'' = Some l0) \<Longrightarrow>
                   ag_chain (content_agent ags) inps = chain' inps"
    and rd: "research_data state = Some rd"
    and cs: "course_structure state = Some cs"
  shows "\<exists>cd'. content_data (fst (generate_course_content (with_content_chain ags chain') state)) = Some cd'
           \<and> content_data (fst (generate_course_content ags state)) = Some (mark_failed m0 l0 e cd')
           \<and> snd (generate_course_content ags state)
               = snd (generate_course_content (with_content_chain ags chain') state)"
  using module_loop_mark_failed [OF fail same rd, where cs=cs and d="[]" and tr="[Node_started Content]" and ms="cs_modules cs"] cs
  by (auto simp: generate_course_content_def mark_failed_def AgentState_def split: prod.splits)

lemma ld_title_generated_lessons:
  "map ld_title (generated_lessons ags state cs m) = map ls_title (ms_lessons m)"
  by (simp add: generated_lessons_def comp_def)

text \<open>
  Claim C2. Let the structure and the research data be present, and let the content
  chain raise \<open>e\<close> exactly on the calls for the lesson \<open>l0\<close> of the module \<open>m0\<close>
  (elsewhere it answers as some chain \<open>chain'\<close> does). Then the content node sets no error
  and makes the same calls as with \<open>chain'\<close>, and its \<open>content_data\<close> is the one obtained
  with \<open>chain'\<close> except that the entries of that lesson are the diagnostic entry: every
  other entry is unchanged; an entry of the failing lesson has the non-empty content
  \<open>Error generating content: e\<close> and no resources; every module that is the last with
  its title has one entry per lesson, in order; and when the structure has a module, the
  finalize node succeeds and \<open>generate_course\<close> returns a course instead of raising.
\<close>

theorem lesson_failure_is_isolated:
  assumes cs: "course_structure state = Some cs"
    and rd: "research_data state = Some rd"
    and fail: "\<And>inps. map_of inps ''module_title'' = Some m0 \<Longrightarrow>
                   map_of inps ''lesson_title'' = Some l0 \<Longrightarrow>
                   ag_chain (content_agent ags) inps = Inl e"
    and same: "\<And>inps. \<not> (map_of inps ''module_title'' = Some m0 \<and>
                        map_of inps ''lesson_title'' = Some l0) \<Longrightarrow>
                   ag_chain (content_agent ags) inps = chain' inps"
  shows "\<exists>cd cd'.
           content_data (fst (generate_course_content (with_content_chain ags chain') state))
             = Some cd'
         \<and> content_data (fst (generate_course_content ags state)) = Some cd
         \<and> cd = mark_failed m0 l0 e cd'
         \<and> error (fst (generate_course_content ags state)) = None
         \<and> snd (generate_course_content ags state)
             = snd (generate_course_content (with_content_chain ags chain') state)
         \<and> (\<forall>entries entry. map_of cd m0 = Some entries \<and> entry \<in> set entries
                \<and> ld_title entry = l0 \<longrightarrow>
              ld_content entry = ''Error generating content: '' @ e
                \<and> ld_content entry \<noteq> [] \<and> ld_resources entry = [])
         \<and> (\<forall>m \<in> set (cs_modules cs).
               last (filter (\<lambda>m'. ms_title m' = ms_title m) (cs_modules cs)) = m \<longrightarrow>
               map_option (map ld_title) (map_of cd (ms_title m))
                 = Some (map ls_title (ms_lessons m)))
         \<and> (cs_modules cs \<noteq> [] \<longrightarrow>
              (\<exists>course. course_of_result
                  (fst (finalize_course (fst (generate_course_content ags state))))
                    = Inr course))"
proof -
  let ?s1 = "fst (generate_course_content ags state)"
  let ?cd = "foldl (\<lambda>d m. AList.update (ms_title m) (generated_lessons ags state cs m) d)
               [] (cs_modules cs)"
  from generate_course_content_mark_failed [OF fail same rd cs]
  obtain cd' where
    a: "content_data (fst (generate_course_content (with_content_chain ags chain') state))
          = Some cd'"
    and b: "content_data ?s1 = Some (mark_failed m0 l0 e cd')"
    and c: "snd (generate_course_content ags state)
              = snd (generate_course_content (with_content_chain ags chain') state)"
    by blast
  have s1: "course_structure ?s1 = Some cs" "content_data ?s1 = Some ?cd" "error ?s1 = None"
    using generate_course_content_Some [OF cs, of ags] by (simp_all add: AgentState_def)
  from b s1(2) have cd: "mark_failed m0 l0 e cd' = ?cd" by simp
  have d: "\<forall>entries entry. map_of (mark_failed m0 l0 e cd') m0 = Some entries
              \<and> entry \<in> set entries \<and> ld_title entry = l0 \<longrightarrow>
              ld_content entry = ''Error generating content: '' @ e
                \<and> ld_content entry \<noteq> [] \<and> ld_resources entry = []"
  proof (intro allI impI, elim conjE)
    fix entries entry
    assume m: "map_of (mark_failed m0 l0 e cd') m0 = Some entries"
      and mem: "entry \<in> set entries" and t: "ld_title entry = l0"
    define G where "G = (\<lambda>entry. if ld_title entry = l0
                               then \<lparr>ld_title = l0,
                                     ld_content = ''Error generating content: '' @ e,
                                     ld_resources = []\<rparr>
                               else entry)"
    from m obtain z where "entries = map G z"
      by (auto simp: map_of_mark_failed G_def)
    with mem obtain x where x: "entry = G x"
      by auto
    show "ld_content entry = ''Error generating content: '' @ e
                \<and> ld_content entry \<noteq> [] \<and> ld_resources entry = []"
    proof (cases "ld_title x = l0")
      case True
      with x show ?thesis by (simp add: G_def)
    next
      case False
      with x t show ?thesis by (simp add: G_def)
    qed
  qed
  have look: "map_of ?cd (ms_title m) = Some (generated_lessons ags state cs
                 (last (filter (\<lambda>m'. ms_title m' = ms_title m) (cs_modules cs))))"
    if "m \<in> set (cs_modules cs)" for m
  proof -
    from that have "filter (\<lambda>m'. ms_title m' = ms_title m) (cs_modules cs) \<noteq> []"
      by (auto simp: filter_empty_conv)
    then show ?thesis by (simp add: map_of_update_loop)
  qed
  have f: "\<forall>m \<in> set (cs_modules cs).
               last (filter (\<lambda>m'. ms_title m' = ms_title m) (cs_modules cs)) = m \<longrightarrow>
               map_option (map ld_title) (map_of (mark_failed m0 l0 e cd') (ms_title m))
                 = Some (map ls_title (ms_lessons m))"
    using look by (simp add: cd ld_title_generated_lessons)
  have g: "\<exists>course. course_of_result (fst (finalize_course ?s1)) = Inr course"
    if ne: "cs_modules cs \<noteq> []"
  proof -
    from ne obtain m where "m \<in> set (cs_modules cs)" by (cases "cs_modules cs") auto
    from look [OF this] have "?cd \<noteq> []" by auto
    from finalize_course_result [OF s1(1,2) this]
    show ?thesis by (simp add: course_of_result_finalize)
  qed
  from a b c s1(3) d f g show ?thesis by blast
qed

theorem lesson_failure_is_isolated_witness:
  "content_data (fst (generate_course_content failing_lesson_agents example_content_state))
     = Some [(''MODULE 1: A'',
               [\<lparr>ld_title = ''x'', ld_content = ''Hello'', ld_resources = [''A'', ''B'']\<rparr>,
                \<lparr>ld_title = ''y'', ld_content = ''Error generating content: timeout'',
                 ld_resources = []\<rparr>]),
             (''MODULE 2: B'',
               [\<lparr>ld_title = ''z'', ld_content = ''Hello'', ld_resources = [''A'', ''B'']\<rparr>])]"
proof -
  have cs: "course_structure example_content_state
              = Some (parse_structure_result example_structure_text)"
    and rd: "research_data example_content_state = Some (Research_parsed empty_research_data)"
    by (simp_all add: example_content_state_def AgentState_def)
  have fail: "\<And>inps. map_of inps ''module_title'' = Some ''MODULE 1: A'' \<Longrightarrow>
                map_of inps ''lesson_title'' = Some ''y'' \<Longrightarrow>
                ag_chain (content_agent failing_lesson_agents) inps = Inl ''timeout''"
    by (simp add: failing_lesson_agents_def with_content_chain_def)
  have same: "\<And>inps. \<not> (map_of inps ''module_title'' = Some ''MODULE 1: A'' \<and>
                      map_of inps ''lesson_title'' = Some ''y'') \<Longrightarrow>
                ag_chain (content_agent failing_lesson_agents) inps
                  = ag_chain (content_agent example_agents) inps"
    by (auto simp: failing_lesson_agents_def with_content_chain_def)
  have ex: "content_data (fst (generate_course_content
              (with_content_chain failing_lesson_agents (ag_chain (content_agent example_agents)))
              example_content_state))
     = Some [(''MODULE 1: A'',
               [\<lparr>ld_title = ''x'', ld_content = ''Hello'', ld_resources = [''A'', ''B'']\<rparr>,
                \<lparr>ld_title = ''y'', ld_content = ''Hello'', ld_resources = [''A'', ''B'']\<rparr>]),
             (''MODULE 2: B'',
               [\<lparr>ld_title = ''z'', ld_content = ''Hello'', ld_resources = [''A'', ''B'']\<rparr>])]"
    by code_simp
  from lesson_failure_is_isolated [OF cs rd fail same] ex
  show ?thesis by (auto simp: mark_failed_def)
qed

subsection \<open>Failure of a stage\<close>

lemma research_course_topic_result:
  "\<exists>rd. research_course_topic ags state
          = ((AgentState (brief state) (target_audience state) (course_duration state))
               \<lparr>research_data := Some rd\<rparr>,
             [Node_started Research, Agent_running (ag_name (research_agent ags))])"
  by (auto simp: research_course_topic_def research_topic_def run_def split: prod.splits sum.splits)

lemma create_course_structure_raises:
  assumes "research_data state = Some rd"
    and "fst (create_structure (structure_agent ags) (brief state) rd
                (or_empty (target_audience state)) (or_empty (course_duration state))) = Inl e"
  shows "error (fst (create_course_structure ags state))
           = Some (''Structure creation error: '' @ e)"
  using assms
  by (auto simp: create_course_structure_def AgentState_def split: prod.splits sum.splits)

lemma create_course_structure_no_research:
  "research_data state = None \<Longrightarrow>
   create_course_structure ags state
     = ((AgentState (brief state) (target_audience state) (course_duration state))
          \<lparr>error := Some ''No research data available for creating course structure''\<rparr>,
        [Node_started Structure])"
  by (simp add: create_course_structure_def)

lemma generate_course_content_no_structure:
  "course_structure state = None \<Longrightarrow>
   generate_course_content ags state
     = ((AgentState (brief state) (target_audience state) (course_duration state))
          \<lparr>research_data := research_data state,
           error := Some ''No course structure available for generating content''\<rparr>,
        [Node_started Content])"
  by (simp add: generate_course_content_def)

lemma finalize_course_no_structure:
  "course_structure state = None \<Longrightarrow>
   finalize_course state
     = ((AgentState (brief state) (target_audience state) (course_duration state))
          \<lparr>research_data := research_data state,
           error := Some ''Missing course structure for finalizing the course''\<rparr>,
        [Node_started Finalize])"
  by (simp add: finalize_course_def)

lemma create_course_structure_error:
  "error (fst (create_course_structure ags state)) = Some err \<Longrightarrow>
   course_structure (fst (create_course_structure ags state)) = None"
  by (auto simp: create_course_structure_def AgentState_def split: option.splits prod.splits sum.splits)

lemma generate_course_content_error:
  "error (fst (generate_course_content ags state)) = Some err \<Longrightarrow>
   course_structure state = None
   \<and> course_structure (fst (generate_course_content ags state)) = None
   \<and> content_data (fst (generate_course_content ags state)) = None"
  by (auto simp: generate_course_content_def AgentState_def split: option.splits prod.splits)

text \<open>Every node function records its start once; the agents add no such entry.\<close>

lemma research_course_topic_started:
  "filter is_node_started (snd (research_course_topic ags state)) = [Node_started Research]"
  using research_course_topic_result [of ags state] by (auto simp: is_node_started_def)

lemma create_course_structure_started:
  "filter is_node_started (snd (create_course_structure ags state)) = [Node_started Structure]"
  by (auto simp: create_course_structure_def create_structure_def run_def is_node_started_def
      split: option.splits prod.splits sum.splits)

lemma lesson_step_started:
  "filter is_node_started (snd (lesson_step ags state cs t acc lesson))
     = filter is_node_started (snd acc)"
  by (auto simp: lesson_step_def generate_lesson_content_def run_def is_node_started_def
      split: option.splits prod.splits sum.splits)

lemma lesson_loop_started:
  "filter is_node_started (snd (foldl (lesson_step ags state cs t) acc lessons))
     = filter is_node_started (snd acc)"
  by (induction lessons arbitrary: acc) (simp_all add: lesson_step_started)

lemma module_loop_started:
  "filter is_node_started (snd (foldl (module_step ags state cs) acc ms))
     = filter is_node_started (snd acc)"
  by (induction ms arbitrary: acc) (simp_all add: module_step_def lesson_loop_started)

lemma generate_course_content_started:
  "filter is_node_started (snd (generate_course_content ags state)) = [Node_started Content]"
proof (cases "course_structure state")
  case None
  then show ?thesis
    by (simp add: generate_course_content_no_structure is_node_started_def)
next
  case (Some cs)
  with module_loop_started [of ags state cs "([], [Node_started Content])" "cs_modules cs"]
  show ?thesis
    by (auto simp: generate_course_content_def is_node_started_def split: prod.splits)
qed

lemma finalize_course_started: "snd (finalize_course state) = [Node_started Finalize]"
  by (simp add: finalize_course_def split: option.splits list.splits)

lemma generate_course_eq:
  "generate_course ags b ta cd
     = Some (course_of_result (fst (finalize_course (after_content ags b ta cd))),
             snd (research_course_topic ags (AgentState b ta cd))
             @ snd (create_course_structure ags (after_research ags b ta cd))
             @ snd (generate_course_content ags (after_structure ags b ta cd))
             @ [Node_started Finalize])"
  by (simp add: generate_course_def ainvoke_eq after_content_def after_structure_def
      after_research_def finalize_course_started)

text \<open>
  A defect next to this claim, which the amended statement below does not cover:
  \<open>research_topic\<close> catches the exception of its chain and returns
  \<open>{"error": "Research failed: ..."}\<close> as the research data, where \<open>create_structure\<close>
  re-raises. The \<open>except\<close> clause of the research node is therefore never entered, the
  node sets no error, and the request goes on as if the research had succeeded.
\<close>

lemma research_failure_is_swallowed:
  "research_topic (research_agent failing_research_agents) ''b'' [] []
     = (Research_error ''Research failed: boom'', [Agent_running ''Research Agent''])
   \<and> error (after_research failing_research_agents ''b'' None None) = None"
  by code_simp

text \<open>
  Claim C1, as stated, fails in its general clause. With a structure chain that raises
  \<open>boom\<close>, the structure node returns a state with \<open>error\<close> set, and yet the content node
  and the finalize node are started after it: the edges of the graph are unconditional.
  Each of them replaces the error by its own, so the terminal failure that
  \<open>generate_course\<close> raises does not contain the original failure text.
\<close>

theorem structure_failure_counterexample:
  "error (after_structure failing_structure_agents ''b'' None None)
     = Some ''Structure creation error: boom''
   \<and> generate_course failing_structure_agents ''b'' None None
     = Some (Inl ''Course generation failed: Missing course structure for finalizing the course'',
             [Node_started Research, Agent_running ''Research Agent'',
              Node_started Structure, Agent_running ''Structure Agent'',
              Node_started Content, Node_started Finalize])
   \<and> \<not> contains ''Course generation failed: Missing course structure for finalizing the course''
         ''boom''"
  by code_simp

text \<open>
  Claim C1, amended. On every request all four node functions run, in the order research,
  structure, content, finalize. When the structure stage's generation call fails (raises),
  the structure node returns a state with \<open>error\<close> set. Whenever the structure node or the
  content node returns a state with \<open>error\<close> set, that state has no \<open>course_structure\<close>;
  a node function that finds its prerequisite missing (\<open>research_data\<close> for the structure
  node, \<open>course_structure\<close> for the content and finalize nodes) runs no agent and returns
  its own missing-prerequisite error. Hence, whenever the structure node or the content
  node of a request returns a state with \<open>error\<close> set, no later node makes a generation
  call, and \<open>generate_course\<close> raises the terminal failure \<open>Course generation failed:
  Missing course structure for finalizing the course\<close>, whatever the original failure text
  was.
\<close>

theorem failed_stage_stops_generation:
  "(\<exists>r tr. generate_course ags b ta cd = Some (r, tr)
       \<and> filter is_node_started tr
           = [Node_started Research, Node_started Structure,
              Node_started Content, Node_started Finalize])
   \<and> (\<forall>s rd e. research_data s = Some rd
          \<and> fst (create_structure (structure_agent ags) (brief s) rd
                   (or_empty (target_audience s)) (or_empty (course_duration s))) = Inl e \<longrightarrow>
        error (fst (create_course_structure ags s)) = Some (''Structure creation error: '' @ e))
   \<and> (\<forall>s err. error (fst (create_course_structure ags s)) = Some err \<longrightarrow>
        course_structure (fst (create_course_structure ags s)) = None)
   \<and> (\<forall>s err. error (fst (generate_course_content ags s)) = Some err \<longrightarrow>
        course_structure (fst (generate_course_content ags s)) = None
        \<and> content_data (fst (generate_course_content ags s)) = None)
   \<and> (\<forall>s. research_data s = None \<longrightarrow>
        snd (create_course_structure ags s) = [Node_started Structure]
        \<and> error (fst (create_course_structure ags s))
            = Some ''No research data available for creating course structure'')
   \<and> (\<forall>s. course_structure s = None \<longrightarrow>
        snd (generate_course_content ags s) = [Node_started Content]
        \<and> error (fst (generate_course_content ags s))
            = Some ''No course structure available for generating content''
        \<and> snd (finalize_course s) = [Node_started Finalize]
        \<and> error (fst (finalize_course s))
            = Some ''Missing course structure for finalizing the course'')
   \<and> ((\<exists>err. error (after_structure ags b ta cd) = Some err)
        \<or> (\<exists>err. error (after_content ags b ta cd) = Some err) \<longrightarrow>
       generate_course ags b ta cd
         = Some (Inl ''Course generation failed: Missing course structure for finalizing the course'',
                 snd (research_course_topic ags (AgentState b ta cd))
                 @ snd (create_course_structure ags (after_research ags b ta cd))
                 @ [Node_started Content, Node_started Finalize]))"
proof (intro conjI)
  show "\<exists>r tr. generate_course ags b ta cd = Some (r, tr)
       \<and> filter is_node_started tr
           = [Node_started Research, Node_started Structure,
              Node_started Content, Node_started Finalize]"
    by (simp add: generate_course_eq research_course_topic_started
        create_course_structure_started generate_course_content_started is_node_started_def)
next
  show "\<forall>s rd e. research_data s = Some rd
          \<and> fst (create_structure (structure_agent ags) (brief s) rd
                   (or_empty (target_audience s)) (or_empty (course_duration s))) = Inl e \<longrightarrow>
        error (fst (create_course_structure ags s)) = Some (''Structure creation error: '' @ e)"
    using create_course_structure_raises by blast
next
  show "\<forall>s err. error (fst (create_course_structure ags s)) = Some err \<longrightarrow>
        course_structure (fst (create_course_structure ags s)) = None"
    using create_course_structure_error by blast
next
  show "\<forall>s err. error (fst (generate_course_content ags s)) = Some err \<longrightarrow>
        course_structure (fst (generate_course_content ags s)) = None
        \<and> content_data (fst (generate_course_content ags s)) = None"
    using generate_course_content_error by blast
next
  show "\<forall>s. research_data s = None \<longrightarrow>
        snd (create_course_structure ags s) = [Node_started Structure]
        \<and> error (fst (create_course_structure ags s))
            = Some ''No research data available for creating course structure''"
    by (simp add: create_course_structure_no_research AgentState_def)
next
  show "\<forall>s. course_structure s = None \<longrightarrow>
        snd (generate_course_content ags s) = [Node_started Content]
        \<and> error (fst (generate_course_content ags s))
            = Some ''No course structure available for generating content''
        \<and> snd (finalize_course s) = [Node_started Finalize]
        \<and> error (fst (finalize_course s))
            = Some ''Missing course structure for finalizing the course''"
    by (simp add: generate_course_content_no_structure finalize_course_no_structure
        AgentState_def)
next
  show "(\<exists>err. error (after_structure ags b ta cd) = Some err)
        \<or> (\<exists>err. error (after_content ags b ta cd) = Some err) \<longrightarrow>
       generate_course ags b ta cd
         = Some (Inl ''Course generation failed: Missing course structure for finalizing the course'',
                 snd (research_course_topic ags (AgentState b ta cd))
                 @ snd (create_course_structure ags (after_research ags b ta cd))
                 @ [Node_started Content, Node_started Finalize])"
  proof
    assume "(\<exists>err. error (after_structure ags b ta cd) = Some err)
        \<or> (\<exists>err. error (after_content ags b ta cd) = Some err)"
    then have cs2: "course_structure (after_structure ags b ta cd) = None"
      using create_course_structure_error [of ags "after_research ags b ta cd"]
        generate_course_content_error [of ags "after_structure ags b ta cd"]
      by (auto simp: after_structure_def after_content_def)
    note r3 = generate_course_content_no_structure [OF cs2, of ags]
    have cs3: "course_structure (after_content ags b ta cd) = None"
      unfolding after_content_def r3 by (simp add: AgentState_def)
    have "error (fst (finalize_course (after_content ags b ta cd)))
            = Some ''Missing course structure for finalizing the course''"
      unfolding finalize_course_no_structure [OF cs3] by (simp add: AgentState_def)
    then have "course_of_result (fst (finalize_course (after_content ags b ta cd)))
            = Inl ''Course generation failed: Missing course structure for finalizing the course''"
      by (simp add: course_of_result_finalize)
    moreover have "snd (generate_course_content ags (after_structure ags b ta cd))
            = [Node_started Content]"
      by (simp add: r3)
    ultimately show "generate_course ags b ta cd
         = Some (Inl ''Course generation failed: Missing course structure for finalizing the course'',
                 snd (research_course_topic ags (AgentState b ta cd))
                 @ snd (create_course_structure ags (after_research ags b ta cd))
                 @ [Node_started Content, Node_started Finalize])"
      by (simp add: generate_course_eq)
  qed
qed

theorem failed_stage_stops_generation_witness:
  "(\<exists>err. error (after_structure failing_structure_agents ''b'' None (Some ''6 weeks''))
             = Some err)
   \<and> generate_course failing_structure_agents ''b'' None (Some ''6 weeks'')
     = Some (Inl ''Course generation failed: Missing course structure for finalizing the course'',
             [Node_started Research, Agent_running ''Research Agent'',
              Node_started Structure, Agent_running ''Structure Agent'',
              Node_started Content, Node_started Finalize])"
proof -
  have h: "error (after_structure failing_structure_agents ''b'' None (Some ''6 weeks''))
             = Some ''Structure creation error: boom''"
    by code_simp
  have t: "snd (research_course_topic failing_structure_agents
                  (AgentState ''b'' None (Some ''6 weeks'')))
           @ snd (create_course_structure failing_structure_agents
                    (after_research failing_structure_agents ''b'' None (Some ''6 weeks'')))
           @ [Node_started Content, Node_started Finalize]
         = [Node_started Research, Agent_running ''Research Agent'',
            Node_started Structure, Agent_running ''Structure Agent'',
            Node_started Content, Node_started Finalize]"
    by code_simp
  from failed_stage_stops_generation [of failing_structure_agents "''b''" None "Some ''6 weeks''"] h
  have "generate_course failing_structure_agents ''b'' None (Some ''6 weeks'')
         = Some (Inl ''Course generation failed: Missing course structure for finalizing the course'',
                 snd (research_course_topic failing_structure_agents
                        (AgentState ''b'' None (Some ''6 weeks'')))
                 @ snd (create_course_structure failing_structure_agents
                          (after_research failing_structure_agents ''b'' None (Some ''6 weeks'')))
                 @ [Node_started Content, Node_started Finalize])"
    by blast
  with t h show ?thesis by simp
qed

section \<open>Properties of the string operations\<close>

lemma split_not_Nil [simp]: "split s sep \<noteq> []"
  by (induction s sep rule: split.induct) (auto split: list.splits)

lemma split_hd_prefix: "split s sep = w # ws \<Longrightarrow> prefix w s"
  by (induction s sep arbitrary: w ws rule: split.induct) (auto split: if_splits list.splits)

lemma split_sublist: "x \<in> set (split s sep) \<Longrightarrow> sublist x s"
proof (induction s sep arbitrary: x rule: split.induct)
  case (1 sep)
  then show ?case by simp
next
  case (2 c cs sep)
  show ?case
  proof (cases "sep \<noteq> [] \<and> prefix sep (c # cs)")
    case True
    with "2.prems" have "x = [] \<or> x \<in> set (split (drop (length sep) (c # cs)) sep)"
      by simp
    then show ?thesis
    proof
      assume "x = []"
      then show ?thesis by simp
    next
      assume "x \<in> set (split (drop (length sep) (c # cs)) sep)"
      with True "2.IH"(1) have "sublist x (drop (length sep) (c # cs))" by blast
      then show ?thesis
        using sublist_order.order_trans sublist_drop by blast
    qed
  next
    case False
    obtain w ws where sp: "split cs sep = w # ws"
      by (cases "split cs sep") simp_all
    with False "2.prems" have "x = c # w \<or> x \<in> set ws" by auto
    then show ?thesis
    proof
      assume "x = c # w"
      with split_hd_prefix [OF sp] show ?thesis by simp
    next
      assume "x \<in> set ws"
      with sp False "2.IH"(2) have "sublist x cs" by auto
      then show ?thesis by (simp add: sublist_Cons_right)
    qed
  qed
qed

lemma contains_split:
  "x \<in> set (split s sep) \<Longrightarrow> contains x h \<Longrightarrow> contains s h"
  unfolding contains_def using split_sublist sublist_order.order_trans by blast

section \<open>Properties of the research parser\<close>

subsection \<open>A header that does not occur leaves its field at the default\<close>

lemma research_step_no_summary:
  "\<not> contains section ''RESEARCH SUMMARY:'' \<Longrightarrow>
   rd_summary (fst acc) = [] \<and> snd acc \<noteq> Some Summary \<Longrightarrow>
   rd_summary (fst (research_step acc section)) = []
     \<and> snd (research_step acc section) \<noteq> Some Summary"
  by (cases acc) (auto simp: research_step_def split: option.splits research_section.splits)

lemma research_step_no_key_concepts:
  "\<not> contains section ''KEY CONCEPTS:'' \<Longrightarrow>
   rd_key_concepts (fst acc) = [] \<and> snd acc \<noteq> Some Key_concepts \<Longrightarrow>
   rd_key_concepts (fst (research_step acc section)) = []
     \<and> snd (research_step acc section) \<noteq> Some Key_concepts"
  by (cases acc) (auto simp: research_step_def split: option.splits research_section.splits)

lemma research_step_no_resources:
  "\<not> contains section ''RESOURCES:'' \<Longrightarrow>
   rd_resources (fst acc) = [] \<and> snd acc \<noteq> Some Resources \<Longrightarrow>
   rd_resources (fst (research_step acc section)) = []
     \<and> snd (research_step acc section) \<noteq> Some Resources"
  by (cases acc) (auto simp: research_step_def split: option.splits research_section.splits)

lemma research_step_no_insights:
  "\<not> contains section ''INSIGHTS:'' \<Longrightarrow>
   rd_insights (fst acc) = [] \<and> snd acc \<noteq> Some Insights \<Longrightarrow>
   rd_insights (fst (research_step acc section)) = []
     \<and> snd (research_step acc section) \<noteq> Some Insights"
  by (cases acc) (auto simp: research_step_def split: option.splits research_section.splits)

lemma foldl_invariant:
  "P acc \<Longrightarrow> (\<And>a x. x \<in> set xs \<Longrightarrow> P a \<Longrightarrow> P (f a x)) \<Longrightarrow> P (foldl f acc xs)"
  by (induction xs arbitrary: acc) simp_all

lemma parse_research_no_summary:
  assumes "\<not> contains text ''RESEARCH SUMMARY:''"
  shows "rd_summary (parse_research_result text) = []"
proof -
  have "rd_summary (fst (foldl research_step (empty_research_data, None)
          (split text ''\<newline>\<newline>''))) = []
        \<and> snd (foldl research_step (empty_research_data, None)
          (split text ''\<newline>\<newline>'')) \<noteq> Some Summary"
  proof (rule foldl_invariant
      [where P = "\<lambda>acc :: research_data \<times> research_section option. rd_summary (fst acc) = [] \<and> snd acc \<noteq> Some Summary"])
    show "rd_summary (fst (empty_research_data, None :: research_section option)) = []
            \<and> snd (empty_research_data, None :: research_section option) \<noteq> Some Summary"
      by (simp add: empty_research_data_def)
  next
    fix a :: "research_data \<times> research_section option" and x
    assume "x \<in> set (split text ''\<newline>\<newline>'')"
      and "rd_summary (fst a) = [] \<and> snd a \<noteq> Some Summary"
    with assms contains_split show "rd_summary (fst (research_step a x)) = []
            \<and> snd (research_step a x) \<noteq> Some Summary"
      by (intro research_step_no_summary) blast+
  qed
  then show ?thesis by (simp add: parse_research_result_def)
qed

lemma parse_research_no_key_concepts:
  assumes "\<not> contains text ''KEY CONCEPTS:''"
  shows "rd_key_concepts (parse_research_result text) = []"
proof -
  have "rd_key_concepts (fst (foldl research_step (empty_research_data, None)
          (split text ''\<newline>\<newline>''))) = []
        \<and> snd (foldl research_step (empty_research_data, None)
          (split text ''\<newline>\<newline>'')) \<noteq> Some Key_concepts"
  proof (rule foldl_invariant
      [where P = "\<lambda>acc :: research_data \<times> research_section option. rd_key_concepts (fst acc) = [] \<and> snd acc \<noteq> Some Key_concepts"])
    show "rd_key_concepts (fst (empty_research_data, None :: research_section option)) = []
            \<and> snd (empty_research_data, None :: research_section option) \<noteq> Some Key_concepts"
      by (simp add: empty_research_data_def)
  next
    fix a :: "research_data \<times> research_section option" and x
    assume "x \<in> set (split text ''\<newline>\<newline>'')"
      and "rd_key_concepts (fst a) = [] \<and> snd a \<noteq> Some Key_concepts"
    with assms contains_split show "rd_key_concepts (fst (research_step a x)) = []
            \<and> snd (research_step a x) \<noteq> Some Key_concepts"
      by (intro research_step_no_key_concepts) blast+
  qed
  then show ?thesis by (simp add: parse_research_result_def)
qed

lemma parse_research_no_resources:
  assumes "\<not> contains text ''RESOURCES:''"
  shows "rd_resources (parse_research_result text) = []"
proof -
  have "rd_resources (fst (foldl research_step (empty_research_data, None)
          (split text ''\<newline>\<newline>''))) = []
        \<and> snd (foldl research_step (empty_research_data, None)
          (split text ''\<newline>\<newline>'')) \<noteq> Some Resources"
  proof (rule foldl_invariant
      [where P = "\<lambda>acc :: research_data \<times> research_section option. rd_resources (fst acc) = [] \<and> snd acc \<noteq> Some Resources"])
    show "rd_resources (fst (empty_research_data, None :: research_section option)) = []
            \<and> snd (empty_research_data, None :: research_section option) \<noteq> Some Resources"
      by (simp add: empty_research_data_def)
  next
    fix a :: "research_data \<times> research_section option" and x
    assume "x \<in> set (split text ''\<newline>\<newline>'')"
      and "rd_resources (fst a) = [] \<and> snd a \<noteq> Some Resources"
    with assms contains_split show "rd_resources (fst (research_step a x)) = []
            \<and> snd (research_step a x) \<noteq> Some Resources"
      by (intro research_step_no_resources) blast+
  qed
  then show ?thesis by (simp add: parse_research_result_def)
qed

lemma parse_research_no_insights:
  assumes "\<not> contains text ''INSIGHTS:''"
  shows "rd_insights (parse_research_result text) = []"
proof -
  have "rd_insights (fst (foldl research_step (empty_research_data, None)
          (split text ''\<newline>\<newline>''))) = []
        \<and> snd (foldl research_step (empty_research_data, None)
          (split text ''\<newline>\<newline>'')) \<noteq> Some Insights"
  proof (rule foldl_invariant
      [where P = "\<lambda>acc :: research_data \<times> research_section option. rd_insights (fst acc) = [] \<and> snd acc \<noteq> Some Insights"])
    show "rd_insights (fst (empty_research_data, None :: research_section option)) = []
            \<and> snd (empty_research_data, None :: research_section option) \<noteq> Some Insights"
      by (simp add: empty_research_data_def)
  next
    fix a :: "research_data \<times> research_section option" and x
    assume "x \<in> set (split text ''\<newline>\<newline>'')"
      and "rd_insights (fst a) = [] \<and> snd a \<noteq> Some Insights"
    with assms contains_split show "rd_insights (fst (research_step a x)) = []
            \<and> snd (research_step a x) \<noteq> Some Insights"
      by (intro research_step_no_insights) blast+
  qed
  then show ?thesis by (simp add: parse_research_result_def)
qed

text \<open>
  Claim C5. For every research text, each of the four headers \<open>RESEARCH SUMMARY:\<close>,
  \<open>KEY CONCEPTS:\<close>, \<open>RESOURCES:\<close>, \<open>INSIGHTS:\<close> that does not occur in the text leaves its
  field at the default: the empty string for the summary and the insights, the empty
  list for the key concepts and the resources. The parser is a total function of the
  text: it raises on no input.
\<close>

theorem missing_header_gives_default:
  "(\<not> contains text ''RESEARCH SUMMARY:'' \<longrightarrow> rd_summary (parse_research_result text) = [])
   \<and> (\<not> contains text ''KEY CONCEPTS:'' \<longrightarrow> rd_key_concepts (parse_research_result text) = [])
   \<and> (\<not> contains text ''RESOURCES:'' \<longrightarrow> rd_resources (parse_research_result text) = [])
   \<and> (\<not> contains text ''INSIGHTS:'' \<longrightarrow> rd_insights (parse_research_result text) = [])"
  using parse_research_no_summary parse_research_no_key_concepts parse_research_no_resources
    parse_research_no_insights
  by blast

theorem missing_header_gives_default_witness:
  "\<not> contains ''KEY CONCEPTS:\<newline>A\<newline>\<newline>more'' ''RESEARCH SUMMARY:''
   \<and> \<not> contains ''KEY CONCEPTS:\<newline>A\<newline>\<newline>more'' ''RESOURCES:''
   \<and> \<not> contains ''KEY CONCEPTS:\<newline>A\<newline>\<newline>more'' ''INSIGHTS:''
   \<and> rd_summary (parse_research_result ''KEY CONCEPTS:\<newline>A\<newline>\<newline>more'') = []
   \<and> rd_resources (parse_research_result ''KEY CONCEPTS:\<newline>A\<newline>\<newline>more'') = []
   \<and> rd_insights (parse_research_result ''KEY CONCEPTS:\<newline>A\<newline>\<newline>more'') = []"
proof -
  have h: "\<not> contains ''KEY CONCEPTS:\<newline>A\<newline>\<newline>more'' ''RESEARCH SUMMARY:''"
    "\<not> contains ''KEY CONCEPTS:\<newline>A\<newline>\<newline>more'' ''RESOURCES:''"
    "\<not> contains ''KEY CONCEPTS:\<newline>A\<newline>\<newline>more'' ''INSIGHTS:''"
    by code_simp+
  with missing_header_gives_default [of "''KEY CONCEPTS:\<newline>A\<newline>\<newline>more''"]
  show ?thesis by blast
qed

subsection \<open>The field of a header block\<close>

lemma replace_prefix:
  "h \<noteq> [] \<Longrightarrow> replace (h @ body) h new = new @ replace body h new"
  by (cases h) simp_all

lemma replace_absent: "\<not> sublist h s \<Longrightarrow> replace s h new = s"
  by (induction s) (auto simp: sublist_Cons_right)

lemma replace_header_block:
  "h \<noteq> [] \<Longrightarrow> \<not> contains body h \<Longrightarrow> replace (h @ body) h [] = body"
  by (simp add: replace_prefix replace_absent contains_def)

lemma research_step_header:
  "research_step (rd, cur) s =
     (case section_header s of
        Some Summary \<Rightarrow>
          (rd\<lparr>rd_summary := strip (replace s ''RESEARCH SUMMARY:'' [])\<rparr>, Some Summary)
      | Some Key_concepts \<Rightarrow>
          (rd\<lparr>rd_key_concepts := stripped_lines (strip (replace s ''KEY CONCEPTS:'' []))\<rparr>,
           Some Key_concepts)
      | Some Resources \<Rightarrow>
          (rd\<lparr>rd_resources := stripped_lines (strip (replace s ''RESOURCES:'' []))\<rparr>,
           Some Resources)
      | Some Insights \<Rightarrow>
          (rd\<lparr>rd_insights := strip (replace s ''INSIGHTS:'' [])\<rparr>, Some Insights)
      | None \<Rightarrow>
          (case cur of
             None \<Rightarrow> (rd, cur)
           | Some Summary \<Rightarrow> (rd\<lparr>rd_summary := rd_summary rd @ ''\<newline>'' @ s\<rparr>, cur)
           | Some Key_concepts \<Rightarrow>
               (rd\<lparr>rd_key_concepts := rd_key_concepts rd @ stripped_lines s\<rparr>, cur)
           | Some Resources \<Rightarrow> (rd\<lparr>rd_resources := rd_resources rd @ stripped_lines s\<rparr>, cur)
           | Some Insights \<Rightarrow> (rd\<lparr>rd_insights := rd_insights rd @ ''\<newline>'' @ s\<rparr>, cur)))"
  by (simp add: research_step_def section_header_def)

text \<open>Once another section is open and no later block opens this one, the field stays.\<close>

lemma summary_closed:
  "cur \<noteq> Some Summary \<Longrightarrow> \<forall>s \<in> set ss. section_header s \<noteq> Some Summary \<Longrightarrow>
   rd_summary (fst (foldl research_step (rd, cur) ss)) = rd_summary rd"
proof (induction ss arbitrary: rd cur)
  case Nil
  show ?case by simp
next
  case (Cons s ss)
  obtain rd' cur' where st: "research_step (rd, cur) s = (rd', cur')"
    by (cases "research_step (rd, cur) s")
  with Cons.prems have "rd_summary rd' = rd_summary rd" "cur' \<noteq> Some Summary"
    by (auto simp: research_step_header split: option.splits research_section.splits)
  with Cons.IH [of cur' rd'] Cons.prems(2) show ?case by (simp add: st)
qed

lemma key_concepts_closed:
  "cur \<noteq> Some Key_concepts \<Longrightarrow> \<forall>s \<in> set ss. section_header s \<noteq> Some Key_concepts \<Longrightarrow>
   rd_key_concepts (fst (foldl research_step (rd, cur) ss)) = rd_key_concepts rd"
proof (induction ss arbitrary: rd cur)
  case Nil
  show ?case by simp
next
  case (Cons s ss)
  obtain rd' cur' where st: "research_step (rd, cur) s = (rd', cur')"
    by (cases "research_step (rd, cur) s")
  with Cons.prems have "rd_key_concepts rd' = rd_key_concepts rd" "cur' \<noteq> Some Key_concepts"
    by (auto simp: research_step_header split: option.splits research_section.splits)
  with Cons.IH [of cur' rd'] Cons.prems(2) show ?case by (simp add: st)
qed

lemma resources_closed:
  "cur \<noteq> Some Resources \<Longrightarrow> \<forall>s \<in> set ss. section_header s \<noteq> Some Resources \<Longrightarrow>
   rd_resources (fst (foldl research_step (rd, cur) ss)) = rd_resources rd"
proof (induction ss arbitrary: rd cur)
  case Nil
  show ?case by simp
next
  case (Cons s ss)
  obtain rd' cur' where st: "research_step (rd, cur) s = (rd', cur')"
    by (cases "research_step (rd, cur) s")
  with Cons.prems have "rd_resources rd' = rd_resources rd" "cur' \<noteq> Some Resources"
    by (auto simp: research_step_header split: option.splits research_section.splits)
  with Cons.IH [of cur' rd'] Cons.prems(2) show ?case by (simp add: st)
qed

lemma insights_closed:
  "cur \<noteq> Some Insights \<Longrightarrow> \<forall>s \<in> set ss. section_header s \<noteq> Some Insights \<Longrightarrow>
   rd_insights (fst (foldl research_step (rd, cur) ss)) = rd_insights rd"
proof (induction ss arbitrary: rd cur)
  case Nil
  show ?case by simp
next
  case (Cons s ss)
  obtain rd' cur' where st: "research_step (rd, cur) s = (rd', cur')"
    by (cases "research_step (rd, cur) s")
  with Cons.prems have "rd_insights rd' = rd_insights rd" "cur' \<noteq> Some Insights"
    by (auto simp: research_step_header split: option.splits research_section.splits)
  with Cons.IH [of cur' rd'] Cons.prems(2) show ?case by (simp add: st)
qed

text \<open>While the section is open, the headerless blocks that follow are appended to it.\<close>

lemma summary_open:
  "\<forall>s \<in> set ss. section_header s \<noteq> Some Summary \<Longrightarrow>
   rd_summary (fst (foldl research_step (rd, Some Summary) ss))
     = rd_summary rd @ concat (map (\<lambda>c. ''\<newline>'' @ c) (takeWhile headerless ss))"
proof (induction ss arbitrary: rd)
  case Nil
  show ?case by simp
next
  case (Cons s ss)
  show ?case
  proof (cases "headerless s")
    case True
    then have "research_step (rd, Some Summary) s
                 = (rd\<lparr>rd_summary := rd_summary rd @ ''\<newline>'' @ s\<rparr>, Some Summary)"
      by (simp add: research_step_header headerless_def)
    with Cons.IH [of "rd\<lparr>rd_summary := rd_summary rd @ ''\<newline>'' @ s\<rparr>"] Cons.prems True
    show ?thesis by simp
  next
    case False
    obtain rd' cur' where st: "research_step (rd, Some Summary) s = (rd', cur')"
      by (cases "research_step (rd, Some Summary) s")
    with False Cons.prems have "rd_summary rd' = rd_summary rd" "cur' \<noteq> Some Summary"
      by (auto simp: research_step_header headerless_def
          split: option.splits research_section.splits)
    with summary_closed [of cur' ss rd'] Cons.prems False show ?thesis by (simp add: st)
  qed
qed

lemma key_concepts_open:
  "\<forall>s \<in> set ss. section_header s \<noteq> Some Key_concepts \<Longrightarrow>
   rd_key_concepts (fst (foldl research_step (rd, Some Key_concepts) ss))
     = rd_key_concepts rd @ concat (map stripped_lines (takeWhile headerless ss))"
proof (induction ss arbitrary: rd)
  case Nil
  show ?case by simp
next
  case (Cons s ss)
  show ?case
  proof (cases "headerless s")
    case True
    then have "research_step (rd, Some Key_concepts) s
                 = (rd\<lparr>rd_key_concepts := rd_key_concepts rd @ stripped_lines s\<rparr>,
                    Some Key_concepts)"
      by (simp add: research_step_header headerless_def)
    with Cons.IH [of "rd\<lparr>rd_key_concepts := rd_key_concepts rd @ stripped_lines s\<rparr>"]
      Cons.prems True
    show ?thesis by simp
  next
    case False
    obtain rd' cur' where st: "research_step (rd, Some Key_concepts) s = (rd', cur')"
      by (cases "research_step (rd, Some Key_concepts) s")
    with False Cons.prems
    have "rd_key_concepts rd' = rd_key_concepts rd" "cur' \<noteq> Some Key_concepts"
      by (auto simp: research_step_header headerless_def
          split: option.splits research_section.splits)
    with key_concepts_closed [of cur' ss rd'] Cons.prems False show ?thesis by (simp add: st)
  qed
qed

lemma resources_open:
  "\<forall>s \<in> set ss. section_header s \<noteq> Some Resources \<Longrightarrow>
   rd_resources (fst (foldl research_step (rd, Some Resources) ss))
     = rd_resources rd @ concat (map stripped_lines (takeWhile headerless ss))"
proof (induction ss arbitrary: rd)
  case Nil
  show ?case by simp
next
  case (Cons s ss)
  show ?case
  proof (cases "headerless s")
    case True
    then have "research_step (rd, Some Resources) s
                 = (rd\<lparr>rd_resources := rd_resources rd @ stripped_lines s\<rparr>, Some Resources)"
      by (simp add: research_step_header headerless_def)
    with Cons.IH [of "rd\<lparr>rd_resources := rd_resources rd @ stripped_lines s\<rparr>"]
      Cons.prems True
    show ?thesis by simp
  next
    case False
    obtain rd' cur' where st: "research_step (rd, Some Resources) s = (rd', cur')"
      by (cases "research_step (rd, Some Resources) s")
    with False Cons.prems
    have "rd_resources rd' = rd_resources rd" "cur' \<noteq> Some Resources"
      by (auto simp: research_step_header headerless_def
          split: option.splits research_section.splits)
    with resources_closed [of cur' ss rd'] Cons.prems False show ?thesis by (simp add: st)
  qed
qed

lemma insights_open:
  "\<forall>s \<in> set ss. section_header s \<noteq> Some Insights \<Longrightarrow>
   rd_insights (fst (foldl research_step (rd, Some Insights) ss))
     = rd_insights rd @ concat (map (\<lambda>c. ''\<newline>'' @ c) (takeWhile headerless ss))"
proof (induction ss arbitrary: rd)
  case Nil
  show ?case by simp
next
  case (Cons s ss)
  show ?case
  proof (cases "headerless s")
    case True
    then have "research_step (rd, Some Insights) s
                 = (rd\<lparr>rd_insights := rd_insights rd @ ''\<newline>'' @ s\<rparr>, Some Insights)"
      by (simp add: research_step_header headerless_def)
    with Cons.IH [of "rd\<lparr>rd_insights := rd_insights rd @ ''\<newline>'' @ s\<rparr>"] Cons.prems True
    show ?thesis by simp
  next
    case False
    obtain rd' cur' where st: "research_step (rd, Some Insights) s = (rd', cur')"
      by (cases "research_step (rd, Some Insights) s")
    with False Cons.prems have "rd_insights rd' = rd_insights rd" "cur' \<noteq> Some Insights"
      by (auto simp: research_step_header headerless_def
          split: option.splits research_section.splits)
    with insights_closed [of cur' ss rd'] Cons.prems False show ?thesis by (simp add: st)
  qed
qed

lemma research_fold_block:
  assumes "split text ''\<newline>\<newline>'' = pre @ [block] @ post"
  shows "parse_research_result text
           = fst (foldl research_step
                    (research_step (foldl research_step (empty_research_data, None) pre) block)
                    post)"
  by (simp add: parse_research_result_def assms)

lemma summary_of_block:
  assumes sp: "split text ''\<newline>\<newline>'' = pre @ [block] @ post"
    and h: "section_header block = Some Summary"
    and b: "block = ''RESEARCH SUMMARY:'' @ body"
    and nb: "\<not> contains body ''RESEARCH SUMMARY:''"
    and later: "\<forall>s \<in> set post. section_header s \<noteq> Some Summary"
  shows "rd_summary (parse_research_result text)
           = strip body @ concat (map (\<lambda>c. ''\<newline>'' @ c) (takeWhile headerless post))"
proof -
  obtain rd0 cur0 where pre: "foldl research_step (empty_research_data, None) pre = (rd0, cur0)"
    by (cases "foldl research_step (empty_research_data, None) pre")
  have "replace block ''RESEARCH SUMMARY:'' [] = body"
    unfolding b using nb by (intro replace_header_block) simp_all
  with h have "research_step (rd0, cur0) block = (rd0\<lparr>rd_summary := strip body\<rparr>, Some Summary)"
    by (simp add: research_step_header)
  with summary_open [OF later, of "rd0\<lparr>rd_summary := strip body\<rparr>"] show ?thesis
    by (simp add: research_fold_block [OF sp] pre)
qed

lemma key_concepts_of_block:
  assumes sp: "split text ''\<newline>\<newline>'' = pre @ [block] @ post"
    and h: "section_header block = Some Key_concepts"
    and b: "block = ''KEY CONCEPTS:'' @ body"
    and nb: "\<not> contains body ''KEY CONCEPTS:''"
    and later: "\<forall>s \<in> set post. section_header s \<noteq> Some Key_concepts"
  shows "rd_key_concepts (parse_research_result text)
           = stripped_lines (strip body) @ concat (map stripped_lines (takeWhile headerless post))"
proof -
  obtain rd0 cur0 where pre: "foldl research_step (empty_research_data, None) pre = (rd0, cur0)"
    by (cases "foldl research_step (empty_research_data, None) pre")
  have "replace block ''KEY CONCEPTS:'' [] = body"
    unfolding b using nb by (intro replace_header_block) simp_all
  with h have "research_step (rd0, cur0) block
                 = (rd0\<lparr>rd_key_concepts := stripped_lines (strip body)\<rparr>, Some Key_concepts)"
    by (simp add: research_step_header)
  with key_concepts_open [OF later, of "rd0\<lparr>rd_key_concepts := stripped_lines (strip body)\<rparr>"]
  show ?thesis
    by (simp add: research_fold_block [OF sp] pre)
qed

lemma resources_of_block:
  assumes sp: "split text ''\<newline>\<newline>'' = pre @ [block] @ post"
    and h: "section_header block = Some Resources"
    and b: "block = ''RESOURCES:'' @ body"
    and nb: "\<not> contains body ''RESOURCES:''"
    and later: "\<forall>s \<in> set post. section_header s \<noteq> Some Resources"
  shows "rd_resources (parse_research_result text)
           = stripped_lines (strip body) @ concat (map stripped_lines (takeWhile headerless post))"
proof -
  obtain rd0 cur0 where pre: "foldl research_step (empty_research_data, None) pre = (rd0, cur0)"
    by (cases "foldl research_step (empty_research_data, None) pre")
  have "replace block ''RESOURCES:'' [] = body"
    unfolding b using nb by (intro replace_header_block) simp_all
  with h have "research_step (rd0, cur0) block
                 = (rd0\<lparr>rd_resources := stripped_lines (strip body)\<rparr>, Some Resources)"
    by (simp add: research_step_header)
  with resources_open [OF later, of "rd0\<lparr>rd_resources := stripped_lines (strip body)\<rparr>"]
  show ?thesis
    by (simp add: research_fold_block [OF sp] pre)
qed

lemma insights_of_block:
  assumes sp: "split text ''\<newline>\<newline>'' = pre @ [block] @ post"
    and h: "section_header block = Some Insights"
    and b: "block = ''INSIGHTS:'' @ body"
    and nb: "\<not> contains body ''INSIGHTS:''"
    and later: "\<forall>s \<in> set post. section_header s \<noteq> Some Insights"
  shows "rd_insights (parse_research_result text)
           = strip body @ concat (map (\<lambda>c. ''\<newline>'' @ c) (takeWhile headerless post))"
proof -
  obtain rd0 cur0 where pre: "foldl research_step (empty_research_data, None) pre = (rd0, cur0)"
    by (cases "foldl research_step (empty_research_data, None) pre")
  have "replace block ''INSIGHTS:'' [] = body"
    unfolding b using nb by (intro replace_header_block) simp_all
  with h have "research_step (rd0, cur0) block = (rd0\<lparr>rd_insights := strip body\<rparr>, Some Insights)"
    by (simp add: research_step_header)
  with insights_open [OF later, of "rd0\<lparr>rd_insights := strip body\<rparr>"] show ?thesis
    by (simp add: research_fold_block [OF sp] pre)
qed

text \<open>
  Claim C6, as stated, fails: the parser cuts the text at blank lines only and lets the
  first header found in a block decide. In a text that has all four headers, each with
  a line under it, but single line breaks between the sections, everything lands in the
  summary: the insights are empty and so are the key concepts and the resources.
\<close>

theorem all_headers_counterexample:
  "contains unseparated_research_text ''RESEARCH SUMMARY:''
   \<and> contains unseparated_research_text ''KEY CONCEPTS:''
   \<and> contains unseparated_research_text ''RESOURCES:''
   \<and> contains unseparated_research_text ''INSIGHTS:''
   \<and> rd_insights (parse_research_result unseparated_research_text) = []
   \<and> rd_key_concepts (parse_research_result unseparated_research_text) = []
   \<and> rd_resources (parse_research_result unseparated_research_text) = []"
  by code_simp

text \<open>
  Claim C6, amended. Take any research text and one of its blank-line-separated blocks
  (in any position, so the sections may come in any order). If the block opens the
  section of a header (it contains that header and none that the parser tests before
  it), begins with the header, does not repeat it, and no later block opens the same
  section, then the field of that header is read from the rest of the block and from
  the headerless blocks that directly follow it: the key concepts and the resources are
  exactly the non-empty trimmed lines of the trimmed rest, followed by those of the
  following headerless blocks; the summary and the insights are the trimmed rest,
  followed by a line break and the block for each following headerless block, and they
  are non-empty when the rest has a character that is not whitespace.
\<close>

theorem header_block_gives_field:
  assumes "split text ''\<newline>\<newline>'' = pre @ [block] @ post"
  shows "(section_header block = Some Summary \<and> block = ''RESEARCH SUMMARY:'' @ body
            \<and> \<not> contains body ''RESEARCH SUMMARY:''
            \<and> (\<forall>s \<in> set post. section_header s \<noteq> Some Summary)
          \<longrightarrow> rd_summary (parse_research_result text)
                = strip body @ concat (map (\<lambda>c. ''\<newline>'' @ c) (takeWhile headerless post))
              \<and> (strip body \<noteq> [] \<longrightarrow> rd_summary (parse_research_result text) \<noteq> []))
       \<and> (section_header block = Some Key_concepts \<and> block = ''KEY CONCEPTS:'' @ body
            \<and> \<not> contains body ''KEY CONCEPTS:''
            \<and> (\<forall>s \<in> set post. section_header s \<noteq> Some Key_concepts)
          \<longrightarrow> rd_key_concepts (parse_research_result text)
                = stripped_lines (strip body)
                  @ concat (map stripped_lines (takeWhile headerless post)))
       \<and> (section_header block = Some Resources \<and> block = ''RESOURCES:'' @ body
            \<and> \<not> contains body ''RESOURCES:''
            \<and> (\<forall>s \<in> set post. section_header s \<noteq> Some Resources)
          \<longrightarrow> rd_resources (parse_research_result text)
                = stripped_lines (strip body)
                  @ concat (map stripped_lines (takeWhile headerless post)))
       \<and> (section_header block = Some Insights \<and> block = ''INSIGHTS:'' @ body
            \<and> \<not> contains body ''INSIGHTS:''
            \<and> (\<forall>s \<in> set post. section_header s \<noteq> Some Insights)
          \<longrightarrow> rd_insights (parse_research_result text)
                = strip body @ concat (map (\<lambda>c. ''\<newline>'' @ c) (takeWhile headerless post))
              \<and> (strip body \<noteq> [] \<longrightarrow> rd_insights (parse_research_result text) \<noteq> []))"
proof (intro conjI impI; elim conjE)
  assume "section_header block = Some Summary" "block = ''RESEARCH SUMMARY:'' @ body"
    "\<not> contains body ''RESEARCH SUMMARY:''" "\<forall>s \<in> set post. section_header s \<noteq> Some Summary"
  from summary_of_block [OF assms this]
  show "rd_summary (parse_research_result text)
          = strip body @ concat (map (\<lambda>c. ''\<newline>'' @ c) (takeWhile headerless post))" .
  then show "rd_summary (parse_research_result text) \<noteq> []" if "strip body \<noteq> []"
    using that by simp
next
  assume "section_header block = Some Key_concepts" "block = ''KEY CONCEPTS:'' @ body"
    "\<not> contains body ''KEY CONCEPTS:''"
    "\<forall>s \<in> set post. section_header s \<noteq> Some Key_concepts"
  from key_concepts_of_block [OF assms this]
  show "rd_key_concepts (parse_research_result text)
          = stripped_lines (strip body) @ concat (map stripped_lines (takeWhile headerless post))" .
next
  assume "section_header block = Some Resources" "block = ''RESOURCES:'' @ body"
    "\<not> contains body ''RESOURCES:''" "\<forall>s \<in> set post. section_header s \<noteq> Some Resources"
  from resources_of_block [OF assms this]
  show "rd_resources (parse_research_result text)
          = stripped_lines (strip body) @ concat (map stripped_lines (takeWhile headerless post))" .
next
  assume "section_header block = Some Insights" "block = ''INSIGHTS:'' @ body"
    "\<not> contains body ''INSIGHTS:''" "\<forall>s \<in> set post. section_header s \<noteq> Some Insights"
  from insights_of_block [OF assms this]
  show "rd_insights (parse_research_result text)
          = strip body @ concat (map (\<lambda>c. ''\<newline>'' @ c) (takeWhile headerless post))" .
  then show "rd_insights (parse_research_result text) \<noteq> []" if "strip body \<noteq> []"
    using that by simp
qed

theorem header_block_gives_field_witness:
  "rd_key_concepts (parse_research_result example_research_text) = [''A'', ''B'', ''more'']"
proof -
  have sp: "split example_research_text ''\<newline>\<newline>''
              = [''RESEARCH SUMMARY:\<newline>S''] @ [''KEY CONCEPTS:\<newline>A\<newline> B ''] @
                [''more'', ''RESOURCES:\<newline>R1'', ''INSIGHTS:\<newline>I'']"
    by code_simp
  have h: "section_header ''KEY CONCEPTS:\<newline>A\<newline> B '' = Some Key_concepts"
    by code_simp
  have b: "''KEY CONCEPTS:\<newline>A\<newline> B '' = ''KEY CONCEPTS:'' @ ''\<newline>A\<newline> B ''"
    by simp
  have nb: "\<not> contains ''\<newline>A\<newline> B '' ''KEY CONCEPTS:''"
    by code_simp
  have later: "\<forall>s \<in> set [''more'', ''RESOURCES:\<newline>R1'', ''INSIGHTS:\<newline>I''].
                 section_header s \<noteq> Some Key_concepts"
    by code_simp
  have v: "stripped_lines (strip ''\<newline>A\<newline> B '')
             @ concat (map stripped_lines
                 (takeWhile headerless [''more'', ''RESOURCES:\<newline>R1'', ''INSIGHTS:\<newline>I'']))
           = [''A'', ''B'', ''more'']"
    by code_simp
  from header_block_gives_field [OF sp, of "''\<newline>A\<newline> B ''"] h b nb later
  have "rd_key_concepts (parse_research_result example_research_text)
          = stripped_lines (strip ''\<newline>A\<newline> B '')
            @ concat (map stripped_lines
                (takeWhile headerless [''more'', ''RESOURCES:\<newline>R1'', ''INSIGHTS:\<newline>I'']))"
    by blast
  with v show ?thesis by simp
qed

section \<open>Properties of the structure parser\<close>

lemma split_max_colon:
  "split_max l '':'' (Suc 0) =
     (if CHR '':'' \<in> set l
      then [takeWhile (\<lambda>c. c \<noteq> CHR '':'') l, tl (dropWhile (\<lambda>c. c \<noteq> CHR '':'') l)]
      else [l])"
  by (induction l) auto

lemma replace_count_leading:
  "startswith l ''- '' \<Longrightarrow> replace_count l ''- '' [] (Suc 0) = drop 2 l"
  by (cases l) (auto simp: startswith_def)

lemma lesson_title_of_line:
  "startswith l ''- '' \<Longrightarrow> lesson_title_of l = title_of_lesson_line l"
  by (simp add: lesson_title_of_def title_of_lesson_line_def split_max_colon
      replace_count_leading)

lemma lesson_prefix:
  "(startswith l ''- Lesson '' \<or> startswith l ''- '') = startswith l ''- ''"
proof -
  have "prefix ''- '' ''- Lesson ''" by simp
  then have "prefix ''- Lesson '' l \<Longrightarrow> prefix ''- '' l"
    using prefix_order.trans by blast
  then show ?thesis by (auto simp: startswith_def)
qed

lemma lesson_line_step_alt:
  "lesson_line_step lessons line =
     lessons @ (if is_lesson_line (strip line)
                then [\<lparr>ls_title = title_of_lesson_line (strip line), ls_content = []\<rparr>]
                else [])"
  by (simp add: lesson_line_step_def Let_def lesson_prefix is_lesson_line_def
      lesson_title_of_line)

lemma lesson_line_loop:
  "foldl lesson_line_step lessons lines =
     lessons @ map (\<lambda>line. \<lparr>ls_title = title_of_lesson_line line, ls_content = []\<rparr>)
                 (filter is_lesson_line (map strip lines))"
  by (induction lines arbitrary: lessons) (simp_all add: lesson_line_step_alt)

lemma structure_step_modules:
  "cs_modules (structure_step sd raw) =
     cs_modules sd @ (if is_module_block (strip raw) then [module_of_block (strip raw)] else [])"
proof -
  obtain line0 lines where sp: "split (strip raw) ''\<newline>'' = line0 # lines"
    by (cases "split (strip raw) ''\<newline>''") simp_all
  show ?thesis
    by (simp add: structure_step_def Let_def is_module_block_def module_of_block_def sp
        lesson_line_loop)
qed

lemma structure_loop_modules:
  "cs_modules (foldl structure_step sd sections) =
     cs_modules sd @ map module_of_block (filter is_module_block (map strip sections))"
  by (induction sections arbitrary: sd) (simp_all add: structure_step_modules)

text \<open>
  Claim C4, as stated, fails: the three course headers are tested, by containment,
  before the module prefix. A block whose first line begins with \<open>MODULE \<close> but which
  mentions \<open>RATIONALE:\<close> in a lesson line is read as the rationale, and no module is
  produced for it.
\<close>

theorem module_block_counterexample:
  "startswith shadowed_module_text ''MODULE ''
   \<and> split shadowed_module_text ''\<newline>\<newline>'' = [shadowed_module_text]
   \<and> cs_modules (parse_structure_result shadowed_module_text) = []
   \<and> cs_rationale (parse_structure_result shadowed_module_text)
       = ''MODULE 1: Basics\<newline>- Lesson 1.1:  why it matters''"
  by code_simp

text \<open>
  Claim C4, amended. For every structure text, structure parsing yields exactly one
  module for each blank-line-separated block that, after trimming, begins with
  \<open>MODULE \<close> and contains none of \<open>COURSE TITLE:\<close>, \<open>COURSE DESCRIPTION:\<close>, \<open>RATIONALE:\<close>, in
  encounter order. The module's title is the first line of the block, trimmed, with its
  \<open>MODULE N:\<close> prefix; its lessons are, in order, the later lines that begin with \<open>- \<close>
  after trimming; a lesson title is the trimmed text after the first colon of the line
  if it has a colon, else the trimmed text after the leading \<open>- \<close>. So N such blocks
  give N modules, and a block with M lesson lines gives a module with M lessons.
\<close>

theorem modules_of_module_blocks:
  "cs_modules (parse_structure_result text)
     = map module_of_block (filter is_module_block (map strip (split text ''\<newline>\<newline>'')))
   \<and> length (cs_modules (parse_structure_result text))
     = length (filter is_module_block (map strip (split text ''\<newline>\<newline>'')))
   \<and> map (\<lambda>m. length (ms_lessons m)) (cs_modules (parse_structure_result text))
     = map (\<lambda>block. length (filter is_lesson_line (map strip (tl (split block ''\<newline>'')))))
         (filter is_module_block (map strip (split text ''\<newline>\<newline>'')))"
  by (simp add: parse_structure_result_def structure_loop_modules empty_structure_data_def
      module_of_block_def comp_def)

theorem modules_of_module_blocks_witness:
  "cs_modules (parse_structure_result example_structure_text)
     = [\<lparr>ms_title = ''MODULE 1: A'',
         ms_lessons = [\<lparr>ls_title = ''x'', ls_content = []\<rparr>, \<lparr>ls_title = ''y'', ls_content = []\<rparr>]\<rparr>,
        \<lparr>ms_title = ''MODULE 2: B'', ms_lessons = [\<lparr>ls_title = ''z'', ls_content = []\<rparr>]\<rparr>]"
proof -
  have "map module_of_block
          (filter is_module_block (map strip (split example_structure_text ''\<newline>\<newline>'')))
     = [\<lparr>ms_title = ''MODULE 1: A'',
         ms_lessons = [\<lparr>ls_title = ''x'', ls_content = []\<rparr>, \<lparr>ls_title = ''y'', ls_content = []\<rparr>]\<rparr>,
        \<lparr>ms_title = ''MODULE 2: B'', ms_lessons = [\<lparr>ls_title = ''z'', ls_content = []\<rparr>]\<rparr>]"
    by code_simp
  with modules_of_module_blocks [of example_structure_text] show ?thesis by simp
qed

end
